theory Spec2Isabelle
  imports Complex_Main "HOL-Library.AList"
begin

section \<open>JavaScript values and runtime primitives\<close>

text \<open>
  Strings are lists of code units, restricted to the 256 values of \<^typ>\<open>char\<close>; line
  framing and trimming only look at single code units. A JSON value is what
  \<^verbatim>\<open>JSON.parse\<close> returns: objects keep their keys in order (an association list
  without repeated keys, looked up by \<open>map_of\<close>), arrays are lists.
\<close>

datatype json =
    JNull
  | JBool bool
  | JNum real
  | JStr string
  | JArr "json list"
  | JObj "(string \<times> json) list"

text \<open>
  The built-ins the program calls and does not define. \<open>JSON_parse\<close> returns \<open>None\<close>
  where \<^verbatim>\<open>JSON.parse\<close> throws a SyntaxError, \<open>JSON_stringify\<close> returns \<open>None\<close> where
  \<^verbatim>\<open>JSON.stringify\<close> throws, \<open>String_number\<close> is \<^verbatim>\<open>String(n)\<close> on a number (also the
  conversion a template literal applies to \<^verbatim>\<open>Date.now()\<close>).
\<close>

record runtime =
  JSON_parse :: "string \<Rightarrow> json option"
  JSON_stringify :: "json \<Rightarrow> string option"
  String_number :: "real \<Rightarrow> string"

definition newline :: char where
  "newline = CHR 0x0A"

text \<open>The white space \<^verbatim>\<open>String.prototype.trim\<close> strips, among the code units below 256.\<close>

definition isWhiteSpace :: "char \<Rightarrow> bool" where
  "isWhiteSpace c \<longleftrightarrow>
     List.member [CHR 0x09, CHR 0x0A, CHR 0x0B, CHR 0x0C, CHR 0x0D, CHR 0x20, CHR 0xA0] c"

definition trim :: "string \<Rightarrow> string" where
  "trim s = rev (dropWhile isWhiteSpace (rev (dropWhile isWhiteSpace s)))"

text \<open>\<^verbatim>\<open>s.indexOf(c)\<close>: \<open>None\<close> stands for the result -1.\<close>

fun indexOf :: "string \<Rightarrow> char \<Rightarrow> nat option" where
  "indexOf [] c = None"
| "indexOf (x # xs) c = (if x = c then Some 0 else map_option Suc (indexOf xs c))"

subsection \<open>A runtime to run examples on\<close>

text \<open>
  The theorems below hold for every runtime. The examples are evaluated on this one:
  it parses the three JSON literals, prints numbers by their integer part and
  serialises compactly, without escaping.
\<close>

definition digitChar :: "nat \<Rightarrow> char" where
  "digitChar d = ''0123456789'' ! d"

function showNat :: "nat \<Rightarrow> string" where
  "showNat n = (if n < 10 then [digitChar n] else showNat (n div 10) @ [digitChar (n mod 10)])"
  by pat_completeness auto
termination
  by (relation "measure id") auto

declare showNat.simps [simp del]

definition showInt :: "int \<Rightarrow> string" where
  "showInt i = (if i < 0 then CHR ''-'' # showNat (nat (- i)) else showNat (nat i))"

definition quoted :: "string \<Rightarrow> string" where
  "quoted s = CHR 0x22 # s @ [CHR 0x22]"

fun commaSep :: "string list \<Rightarrow> string" where
  "commaSep [] = []"
| "commaSep [x] = x"
| "commaSep (x # y # ys) = x @ CHR '','' # commaSep (y # ys)"

fun render :: "json \<Rightarrow> string" where
  "render JNull = ''null''"
| "render (JBool b) = (if b then ''true'' else ''false'')"
| "render (JNum r) = showInt \<lfloor>r\<rfloor>"
| "render (JStr s) = quoted s"
| "render (JArr xs) = CHR ''['' # commaSep (map render xs) @ '']''"
| "render (JObj kvs) =
     CHR ''{'' # commaSep (map (\<lambda>kv. quoted (fst kv) @ CHR '':'' # render (snd kv)) kvs) @ ''}''"

definition exampleRuntime :: runtime where
  "exampleRuntime =
     \<lparr>JSON_parse = (\<lambda>s. if s = ''null'' then Some JNull
                         else if s = ''true'' then Some (JBool True)
                         else if s = ''false'' then Some (JBool False)
                         else None),
      JSON_stringify = (\<lambda>j. Some (render j)),
      String_number = (\<lambda>r. showInt \<lfloor>r\<rfloor>)\<rparr>"

section \<open>Worker Supervisor: class MablCli (src/mablCli.ts)\<close>

text \<open>
  A child process object, as far as the class reads and writes it: \<open>killed\<close> is set by
  \<^verbatim>\<open>child.kill\<close>, \<open>stdin\<close> holds the chunks written to the worker's input stream
  (\<open>None\<close>: the process has no stdin stream), \<open>listening\<close> says whether the listeners
  registered by \<^verbatim>\<open>spawnCli\<close> are attached.
\<close>

record child_process =
  killed :: bool
  stdin :: "string list option"
  listening :: bool

text \<open>What the EventEmitter emits to its listeners, in order.\<close>

datatype cli_event =
    Message json
  | Exit "int option" "string option"
  | Error string

datatype cli_error =
    StartAfterShutdown
  | AuthenticationFailed
  | SpawnFailed
  | NotRunning
  | SerializeFailed
  | StdinNotAvailable

text \<open>
  The fields of the class (\<open>child\<close> refers to a process object by its number), then
  the bookkeeping of the embedding: \<open>procs\<close> is the store of process objects, \<open>spawned\<close>
  counts the worker processes created by \<^verbatim>\<open>spawn\<close> in \<^verbatim>\<open>spawnCli\<close> (and numbers the
  next one), \<open>delays\<close> counts the calls of \<^verbatim>\<open>scheduleRestart\<close> suspended at
  \<^verbatim>\<open>await delay(delayMs)\<close>, \<open>emitted\<close> is the sequence of \<^verbatim>\<open>this.emit\<close> calls.
\<close>

record MablCli =
  child :: "nat option"
  stdoutBuffer :: string
  restarting :: bool
  restarts :: nat
  closed :: bool
  lastMessageTimestamp :: "int option"
  procs :: "nat \<Rightarrow> child_process"
  spawned :: nat
  delays :: nat
  emitted :: "cli_event list"

text \<open>A newly constructed supervisor: no child, empty buffer, nothing emitted.\<close>

definition newMablCli :: MablCli where
  "newMablCli = \<lparr>child = None, stdoutBuffer = [], restarting = False, restarts = 0,
     closed = False, lastMessageTimestamp = None,
     procs = (\<lambda>_. \<lparr>killed = False, stdin = None, listening = False\<rparr>),
     spawned = 0, delays = 0, emitted = []\<rparr>"

definition emit :: "cli_event \<Rightarrow> MablCli \<Rightarrow> MablCli" where
  "emit e cli = cli\<lparr>emitted := emitted cli @ [e]\<rparr>"

subsection \<open>Lifecycle\<close>

definition isRunning :: "MablCli \<Rightarrow> bool" where
  "isRunning cli = (case child cli of None \<Rightarrow> False | Some p \<Rightarrow> \<not> killed (procs cli p))"

text \<open>
  \<^verbatim>\<open>spawnCli\<close>: \<open>ok\<close> is whether \<^verbatim>\<open>spawn\<close> returns a process (it throws otherwise, before
  any field is assigned). The new process gets its listeners and becomes \<open>child\<close>.
\<close>

definition spawnCli :: "bool \<Rightarrow> MablCli \<Rightarrow> cli_error + MablCli" where
  "spawnCli ok cli =
     (if \<not> ok then Inl SpawnFailed
      else Inr (cli\<lparr>child := Some (spawned cli),
                    restarting := False,
                    procs := (procs cli)(spawned cli :=
                      \<lparr>killed = False, stdin = Some [], listening = True\<rparr>),
                    spawned := spawned cli + 1\<rparr>))"

text \<open>
  \<^verbatim>\<open>start\<close> up to its first \<^verbatim>\<open>await\<close>, and its continuation once the environment is
  prepared and the authentication command has exited (\<open>authOk\<close>: the directories
  were created and the command exited with status zero).
\<close>

definition start :: "MablCli \<Rightarrow> cli_error + MablCli" where
  "start cli = (if closed cli then Inl StartAfterShutdown else Inr cli)"

definition startAuthenticated :: "bool \<Rightarrow> bool \<Rightarrow> MablCli \<Rightarrow> cli_error + MablCli" where
  "startAuthenticated authOk spawnOk cli =
     (if \<not> authOk then Inl AuthenticationFailed else spawnCli spawnOk cli)"

text \<open>
  \<^verbatim>\<open>send\<close>: \<open>accepted\<close> is what \<^verbatim>\<open>writable.write\<close> returns. The result carries it: on
  \<open>False\<close> the caller is suspended until the stream emits \<^verbatim>\<open>drain\<close> (or an error, which
  rejects the call).
\<close>

definition send :: "runtime \<Rightarrow> json \<Rightarrow> bool \<Rightarrow> MablCli \<Rightarrow> cli_error + (MablCli \<times> bool)" where
  "send rt payload accepted cli =
     (case child cli of
        None \<Rightarrow> Inl NotRunning
      | Some p \<Rightarrow>
          if killed (procs cli p) then Inl NotRunning
          else (case JSON_stringify rt payload of
                  None \<Rightarrow> Inl SerializeFailed
                | Some json \<Rightarrow>
                    (case stdin (procs cli p) of
                       None \<Rightarrow> Inl StdinNotAvailable
                     | Some chunks \<Rightarrow>
                         Inr (cli\<lparr>procs := (procs cli)(p :=
                                (procs cli p)\<lparr>stdin := Some (chunks @ [json @ [newline]])\<rparr>)\<rparr>,
                              accepted))))"

definition stop :: "MablCli \<Rightarrow> MablCli" where
  "stop cli =
     (let cli1 = cli\<lparr>closed := True\<rparr>;
          cli2 = (case child cli1 of
                    None \<Rightarrow> cli1
                  | Some p \<Rightarrow>
                      cli1\<lparr>procs := (procs cli1)(p :=
                        (procs cli1 p)\<lparr>listening := False, killed := True\<rparr>)\<rparr>)
      in cli2\<lparr>child := None\<rparr>)"

text \<open>
  \<^verbatim>\<open>scheduleRestart\<close> up to \<^verbatim>\<open>await delay(delayMs)\<close>: the guard, the flag, and one more
  suspended call.
\<close>

definition scheduleRestart :: "MablCli \<Rightarrow> MablCli" where
  "scheduleRestart cli =
     (if restarting cli \<or> closed cli then cli
      else cli\<lparr>restarting := True, delays := delays cli + 1\<rparr>)"

text \<open>
  The rest of \<^verbatim>\<open>scheduleRestart\<close>, run when the delay of a suspended call has elapsed:
  the counter, then \<^verbatim>\<open>spawnCli\<close>; when that throws, the flag is reset and the restart is
  scheduled again. Nothing runs when no call is suspended.
\<close>

definition restartDelayElapsed :: "bool \<Rightarrow> MablCli \<Rightarrow> MablCli" where
  "restartDelayElapsed spawnOk cli =
     (if delays cli = 0 then cli
      else (let cli1 = cli\<lparr>delays := delays cli - 1, restarts := restarts cli + 1\<rparr>
            in case spawnCli spawnOk cli1 of
                 Inr cli2 \<Rightarrow> cli2
               | Inl error \<Rightarrow> scheduleRestart (cli1\<lparr>restarting := False\<rparr>)))"

text \<open>
  The \<^verbatim>\<open>exit\<close> listener of the child process \<open>p\<close>; a process whose listeners were removed
  runs none. The exit event is emitted before the restart logic.
\<close>

definition childExit :: "nat \<Rightarrow> int option \<Rightarrow> string option \<Rightarrow> MablCli \<Rightarrow> MablCli" where
  "childExit p code signal cli =
     (if \<not> listening (procs cli p) then cli
      else (let cli1 = cli\<lparr>child := None,
                            procs := (procs cli)(p := (procs cli p)\<lparr>listening := False\<rparr>)\<rparr>;
                cli2 = emit (Exit code signal) cli1
            in if closed cli2 then cli2 else scheduleRestart cli2))"

definition childError :: "nat \<Rightarrow> string \<Rightarrow> MablCli \<Rightarrow> MablCli" where
  "childError p error cli =
     (if \<not> listening (procs cli p) then cli else emit (Error error) cli)"

subsection \<open>Framing of the worker's standard output\<close>

text \<open>
  \<^verbatim>\<open>processLine\<close>: the timestamp is set first; a line that does not parse is logged and
  dropped. (\<^verbatim>\<open>emit\<close> runs inside the \<^verbatim>\<open>try\<close>, so a listener that throws is caught here
  too and leaves the supervisor as it is.)
\<close>

definition processLine :: "runtime \<Rightarrow> int \<Rightarrow> string \<Rightarrow> MablCli \<Rightarrow> MablCli" where
  "processLine rt now line cli =
     (let cli1 = cli\<lparr>lastMessageTimestamp := Some now\<rparr>
      in case JSON_parse rt line of
           Some parsed \<Rightarrow> emit (Message parsed) cli1
         | None \<Rightarrow> cli1)"

text \<open>The \<^verbatim>\<open>while (newlineIndex !== -1)\<close> loop of \<^verbatim>\<open>handleStdout\<close>.\<close>

function drainLines :: "runtime \<Rightarrow> int \<Rightarrow> MablCli \<Rightarrow> MablCli" where
  "drainLines rt now cli =
     (case indexOf (stdoutBuffer cli) newline of
        None \<Rightarrow> cli
      | Some newlineIndex \<Rightarrow>
          (let line = trim (take newlineIndex (stdoutBuffer cli));
               cli1 = cli\<lparr>stdoutBuffer := drop (newlineIndex + 1) (stdoutBuffer cli)\<rparr>
           in drainLines rt now (if line \<noteq> [] then processLine rt now line cli1 else cli1)))"
  by pat_completeness auto
termination
proof (relation "measure (\<lambda>(rt, now, cli). length (stdoutBuffer cli))")
  show "wf (measure (\<lambda>(rt, now, cli). length (stdoutBuffer cli)))"
    by simp
next
  fix rt :: runtime and now :: int and cli :: MablCli and i line cli1
  assume "indexOf (stdoutBuffer cli) newline = Some i"
    and "line = trim (take i (stdoutBuffer cli))"
    and "cli1 = cli\<lparr>stdoutBuffer := drop (i + 1) (stdoutBuffer cli)\<rparr>"
  moreover have "xs \<noteq> []" if "indexOf xs newline = Some i" for xs
    using that by auto
  ultimately show "((rt, now, if line \<noteq> [] then processLine rt now line cli1 else cli1),
      (rt, now, cli)) \<in> measure (\<lambda>(rt, now, cli). length (stdoutBuffer cli))"
    by (auto simp: processLine_def emit_def Let_def split: option.splits)
qed

declare drainLines.simps [simp del]

definition handleStdout :: "runtime \<Rightarrow> int \<Rightarrow> string \<Rightarrow> MablCli \<Rightarrow> MablCli" where
  "handleStdout rt now chunk cli =
     drainLines rt now (cli\<lparr>stdoutBuffer := stdoutBuffer cli @ chunk\<rparr>)"

text \<open>Feeding chunks one at a time, each at its own time of arrival.\<close>

definition feedChunks :: "runtime \<Rightarrow> (int \<times> string) list \<Rightarrow> MablCli \<Rightarrow> MablCli" where
  "feedChunks rt tcs cli = fold (\<lambda>(t, chunk). handleStdout rt t chunk) tcs cli"

subsection \<open>The framing law, in the words of the specification\<close>

text \<open>
  \<open>splitLines s\<close> cuts \<open>s\<close> at every newline: the complete lines (without their
  newline), and the partial line after the last newline.
\<close>

fun splitLines :: "string \<Rightarrow> string list \<times> string" where
  "splitLines [] = ([], [])"
| "splitLines (c # cs) =
     (case splitLines cs of
        (ls, r) \<Rightarrow>
          if c = newline then ([] # ls, r)
          else (case ls of [] \<Rightarrow> ([], c # r) | l # ls' \<Rightarrow> ((c # l) # ls', r)))"

text \<open>
  The messages a buffer content gives rise to: every complete line is trimmed, empty
  lines are skipped, the others are parsed, and those that do not parse are dropped.
\<close>

definition framedMessages :: "runtime \<Rightarrow> string \<Rightarrow> cli_event list" where
  "framedMessages rt s =
     map Message (List.map_filter (JSON_parse rt)
       (filter (\<lambda>line. line \<noteq> []) (map trim (fst (splitLines s)))))"

section \<open>Session Broker: class SseBroker (src/sse.ts)\<close>

text \<open>
  An express \<^verbatim>\<open>Response\<close> used as an event stream: \<open>written\<close> is the sequence of
  chunks passed to \<^verbatim>\<open>res.write\<close>, \<open>ended\<close> is set by \<^verbatim>\<open>res.end\<close>. Response objects
  live in a store and are referred to by number, since the broker, its listeners and
  its callers share them.
\<close>

record response_stream =
  statusCode :: "nat option"
  headers :: "(string \<times> string) list"
  headersFlushed :: bool
  written :: "string list"
  ended :: bool

record SseClient =
  clientSessionId :: string
  res :: nat
  connectedAt :: int
  lastEventAt :: int

record SseBrokerOptions =
  heartbeatIntervalMs :: int
  idleTimeoutMs :: int

text \<open>
  \<open>clients\<close> is the \<^verbatim>\<open>Map\<close> of the class, in insertion order. \<open>heartbeatTimer\<close> says
  whether the interval is active. \<open>closeListeners\<close> and \<open>errorListeners\<close> hold, for
  each response object, the session identifiers captured by the listeners that
  \<^verbatim>\<open>attach\<close> registered on it. (The gauge \<^verbatim>\<open>sseClientsGauge\<close> is a metric and is left
  out.)
\<close>

record SseBroker =
  clients :: "(string \<times> SseClient) list"
  options :: SseBrokerOptions
  heartbeatTimer :: bool
  streams :: "nat \<Rightarrow> response_stream"
  closeListeners :: "(nat \<times> string) list"
  errorListeners :: "(nat \<times> string) list"

definition newSseBroker :: "SseBrokerOptions \<Rightarrow> SseBroker" where
  "newSseBroker opts =
     \<lparr>clients = [], options = opts, heartbeatTimer = True,
      streams = (\<lambda>_. \<lparr>statusCode = None, headers = [], headersFlushed = False,
                        written = [], ended = False\<rparr>),
      closeListeners = [], errorListeners = []\<rparr>"

definition resWrite :: "nat \<Rightarrow> string \<Rightarrow> SseBroker \<Rightarrow> SseBroker" where
  "resWrite r chunk b =
     b\<lparr>streams := (streams b)(r := (streams b r)\<lparr>written := written (streams b r) @ [chunk]\<rparr>)\<rparr>"

definition endStream :: "nat \<Rightarrow> SseBroker \<Rightarrow> SseBroker" where
  "endStream r b = b\<lparr>streams := (streams b)(r := (streams b r)\<lparr>ended := True\<rparr>)\<rparr>"

definition setHeader :: "nat \<Rightarrow> string \<Rightarrow> string \<Rightarrow> SseBroker \<Rightarrow> SseBroker" where
  "setHeader r name v b =
     b\<lparr>streams := (streams b)(r :=
         (streams b r)\<lparr>headers := AList.update name v (headers (streams b r))\<rparr>)\<rparr>"

definition removeClient :: "string \<Rightarrow> SseBroker \<Rightarrow> SseBroker" where
  "removeClient sessionId b = b\<lparr>clients := AList.delete sessionId (clients b)\<rparr>"

text \<open>
  \<^verbatim>\<open>attach(sessionId, res)\<close> of the earlier revision, which is also the body of the
  later \<^verbatim>\<open>attach\<close> once the session identifier is resolved: an existing stream of the
  session is ended, the response is set up as an event stream, the client is stored
  under the identifier, the ready event is written, and the close and error listeners
  are registered on the response.
\<close>

definition attachSession :: "int \<Rightarrow> string \<Rightarrow> nat \<Rightarrow> SseBroker \<Rightarrow> SseBroker" where
  "attachSession now sessionId r b =
     (let b1 = (case map_of (clients b) sessionId of
                  Some existing \<Rightarrow> endStream (res existing) b
                | None \<Rightarrow> b);
          b2 = b1\<lparr>streams := (streams b1)(r := (streams b1 r)\<lparr>statusCode := Some 200\<rparr>)\<rparr>;
          b3 = setHeader r ''X-Accel-Buffering'' ''no''
                (setHeader r ''Connection'' ''keep-alive''
                  (setHeader r ''Cache-Control'' ''no-cache''
                    (setHeader r ''Content-Type'' ''text/event-stream'' b2)));
          b4 = b3\<lparr>streams := (streams b3)(r := (streams b3 r)\<lparr>headersFlushed := True\<rparr>)\<rparr>;
          client = \<lparr>clientSessionId = sessionId, res = r, connectedAt = now,
                      lastEventAt = now\<rparr>;
          b5 = b4\<lparr>clients := AList.update sessionId client (clients b4)\<rparr>;
          b6 = resWrite r (''data: {'' @ quoted ''session'' @ '':'' @ quoted sessionId @ ''}''
                        @ [newline, newline])
                (resWrite r (''event: ready'' @ [newline]) b5)
      in b6\<lparr>closeListeners := closeListeners b6 @ [(r, sessionId)],
             errorListeners := errorListeners b6 @ [(r, sessionId)]\<rparr>)"

text \<open>
  \<^verbatim>\<open>attach(res, sessionId?)\<close> of the later revision: a missing or empty identifier is
  replaced by \<open>uuid\<close>, the result of \<^verbatim>\<open>randomUUID()\<close>; the resolved identifier is
  returned.
\<close>

definition attach :: "int \<Rightarrow> string \<Rightarrow> nat \<Rightarrow> string option \<Rightarrow> SseBroker \<Rightarrow> string \<times> SseBroker" where
  "attach now uuid r sessionId b =
     (let resolvedSessionId =
            (case sessionId of
               Some s \<Rightarrow> if length s > 0 then s else uuid
             | None \<Rightarrow> uuid)
      in (resolvedSessionId, attachSession now resolvedSessionId r b))"

text \<open>
  The \<^verbatim>\<open>close\<close> and \<^verbatim>\<open>error\<close> events of the response object \<open>r\<close>: every listener
  registered on it runs, each with the session identifier it captured.
\<close>

definition streamClosed :: "nat \<Rightarrow> SseBroker \<Rightarrow> SseBroker" where
  "streamClosed r b =
     fold (\<lambda>(r', sessionId) b'. if r' = r then removeClient sessionId b' else b')
       (closeListeners b) b"

definition streamError :: "nat \<Rightarrow> SseBroker \<Rightarrow> SseBroker" where
  "streamError r b =
     fold (\<lambda>(r', sessionId) b'. if r' = r then removeClient sessionId b' else b')
       (errorListeners b) b"

text \<open>
  \<^verbatim>\<open>writeEvent\<close>: the payload is serialised first, so a failure writes nothing. The
  client object is the one stored under \<open>sessionId\<close>; its \<open>lastEventAt\<close> is set in
  place.
\<close>

definition writeEvent ::
  "runtime \<Rightarrow> int \<Rightarrow> string \<Rightarrow> SseClient \<Rightarrow> string \<Rightarrow> json \<Rightarrow> SseBroker \<Rightarrow> SseBroker" where
  "writeEvent rt now sessionId client event payload b =
     (case JSON_stringify rt payload of
        None \<Rightarrow> b
      | Some serialized \<Rightarrow>
          (let b1 = resWrite (res client) (''event: '' @ event @ [newline]) b;
               b2 = resWrite (res client) (''data: '' @ serialized @ [newline, newline]) b1
           in b2\<lparr>clients :=
                   AList.map_entry sessionId (\<lambda>c. c\<lparr>lastEventAt := now\<rparr>) (clients b2)\<rparr>))"

definition writeHeartbeat :: "runtime \<Rightarrow> int \<Rightarrow> SseClient \<Rightarrow> SseBroker \<Rightarrow> SseBroker" where
  "writeHeartbeat rt now client b =
     resWrite (res client)
       ('': heartbeat '' @ String_number rt (of_int now) @ [newline, newline]) b"

text \<open>\<^verbatim>\<open>SseBroker.send\<close>.\<close>

definition sendEvent ::
  "runtime \<Rightarrow> int \<Rightarrow> string \<Rightarrow> string \<Rightarrow> json \<Rightarrow> SseBroker \<Rightarrow> SseBroker" where
  "sendEvent rt now sessionId event payload b =
     (case map_of (clients b) sessionId of
        None \<Rightarrow> b
      | Some client \<Rightarrow> writeEvent rt now sessionId client event payload b)"

definition broadcast ::
  "runtime \<Rightarrow> int \<Rightarrow> string \<Rightarrow> (string \<Rightarrow> json) \<Rightarrow> SseBroker \<Rightarrow> SseBroker" where
  "broadcast rt now event payloadBuilder b =
     fold (\<lambda>(sessionId, client) b'.
             writeEvent rt now sessionId client event (payloadBuilder sessionId) b')
       (clients b) b"

definition getSessionIds :: "SseBroker \<Rightarrow> string list" where
  "getSessionIds b = map fst (clients b)"

text \<open>
  The callback of the heartbeat interval set up by the constructor: one sweep over
  the clients, \<open>heartbeatClient\<close> being what \<^verbatim>\<open>forEach\<close> runs for one of them. An
  idle client's response is ended and the client removed; the others get a heartbeat
  comment. \<open>now\<close> is the reading of the clock during the sweep, which runs without
  interruption.
\<close>

definition heartbeatClient :: "runtime \<Rightarrow> int \<Rightarrow> string \<times> SseClient \<Rightarrow> SseBroker \<Rightarrow> SseBroker" where
  "heartbeatClient rt now entry b =
     (case entry of
        (sessionId, client) \<Rightarrow>
          if now - lastEventAt client > idleTimeoutMs (options b)
          then removeClient sessionId (endStream (res client) b)
          else writeHeartbeat rt now client b)"

definition heartbeat :: "runtime \<Rightarrow> int \<Rightarrow> SseBroker \<Rightarrow> SseBroker" where
  "heartbeat rt now b = fold (heartbeatClient rt now) (clients b) b"

text \<open>\<^verbatim>\<open>SseBroker.close\<close>.\<close>

definition closeBroker :: "SseBroker \<Rightarrow> SseBroker" where
  "closeBroker b =
     (fold (\<lambda>(sessionId, client) b'. endStream (res client) b') (clients b) b)
       \<lparr>heartbeatTimer := False, clients := []\<rparr>"

subsection \<open>Notions used to state the broker's properties\<close>

text \<open>
  The test of the sweep, the heartbeat comment, and the frames \<^verbatim>\<open>writeEvent\<close> writes
  for a payload: the event line and the data line, or nothing when the payload does
  not serialise.
\<close>

definition isIdle :: "int \<Rightarrow> SseBroker \<Rightarrow> SseClient \<Rightarrow> bool" where
  "isIdle now b client \<longleftrightarrow> now - lastEventAt client > idleTimeoutMs (options b)"

definition heartbeatLine :: "runtime \<Rightarrow> int \<Rightarrow> string" where
  "heartbeatLine rt now = '': heartbeat '' @ String_number rt (of_int now) @ [newline, newline]"

definition eventFrames :: "runtime \<Rightarrow> string \<Rightarrow> json \<Rightarrow> string list" where
  "eventFrames rt event payload =
     (case JSON_stringify rt payload of
        None \<Rightarrow> []
      | Some serialized \<Rightarrow>
          [''event: '' @ event @ [newline], ''data: '' @ serialized @ [newline, newline]])"

text \<open>
  The broker's map holds one entry per session identifier, and no response object is
  the stream of two sessions: each HTTP request brings a response object of its own.
\<close>

definition brokerInv :: "SseBroker \<Rightarrow> bool" where
  "brokerInv b \<longleftrightarrow> distinct (map fst (clients b)) \<and> distinct (map (res \<circ> snd) (clients b))"

subsection \<open>An example broker\<close>

text \<open>
  Heartbeat every 15 s, idle timeout 120 s. Session \<open>a\<close> attaches at time 0 with
  response object 0, session \<open>b\<close> at time 100000 with response object 1.
\<close>

definition exampleOptions :: SseBrokerOptions where
  "exampleOptions = \<lparr>heartbeatIntervalMs = 15000, idleTimeoutMs = 120000\<rparr>"

definition exampleBroker :: SseBroker where
  "exampleBroker =
     attachSession 100000 ''b'' 1 (attachSession 0 ''a'' 0 (newSseBroker exampleOptions))"

section \<open>Correlation Router: createServer (src/server.ts)\<close>

text \<open>
  The repository holds two revisions of the router. The earlier one removes pending
  entries with \<^verbatim>\<open>clearPending\<close> and always answers a submission itself; its functions
  carry the suffix 1. The later one removes them with \<^verbatim>\<open>removePending\<close> and can hold
  the HTTP response of a submission back for an inline reply; its functions carry the
  suffix 2. What the two revisions share is defined once.
\<close>

record PendingRequest =
  sessionId :: string
  startedAt :: int
  timeoutHandle :: nat
  httpResponder :: "nat option"

text \<open>
  An incoming HTTP request, as far as the handlers read it: the parsed body
  (\<open>None\<close>: no body), \<^verbatim>\<open>req.query.session\<close> when it is a string, and the headers.
\<close>

record request =
  reqBody :: "json option"
  querySession :: "string option"
  reqHeaders :: "(string \<times> string) list"

text \<open>
  The state the closures of \<^verbatim>\<open>createServer\<close> share: the \<^verbatim>\<open>Map\<close> of pending requests
  (in insertion order), the broker and the supervisor. Then the bookkeeping of the
  embedding: \<open>timers\<close> holds the armed timeouts, each with what its callback captured
  (the request identifier and the session), \<open>nextTimer\<close> numbers the next handle, and
  \<open>responses\<close> lists the HTTP answers given: response object, status, body. (The
  counters and gauges are metrics and are left out.)
\<close>

record server =
  pendingRequests :: "(string \<times> PendingRequest) list"
  sseBroker :: SseBroker
  mablCli :: MablCli
  timers :: "nat \<Rightarrow> (string \<times> string) option"
  nextTimer :: nat
  responses :: "(nat \<times> nat \<times> json) list"

definition newServer :: "SseBrokerOptions \<Rightarrow> MablCli \<Rightarrow> server" where
  "newServer opts c =
     \<lparr>pendingRequests = [], sseBroker = newSseBroker opts, mablCli = c,
      timers = (\<lambda>_. None), nextTimer = 0, responses = []\<rparr>"

subsection \<open>Helpers\<close>

definition isRecord :: "json \<Rightarrow> bool" where
  "isRecord v = (case v of JObj _ \<Rightarrow> True | JArr _ \<Rightarrow> True | _ \<Rightarrow> False)"

text \<open>
  Reading a named property of a value the caller has tested with \<open>isRecord\<close>: \<open>None\<close>
  is \<^verbatim>\<open>undefined\<close>, which is also what an array gives for the names read here.
\<close>

definition getProp :: "json \<Rightarrow> string \<Rightarrow> json option" where
  "getProp v key = (case v of JObj kvs \<Rightarrow> map_of kvs key | _ \<Rightarrow> None)"

definition isJsonRpcPayload :: "json \<Rightarrow> bool" where
  "isJsonRpcPayload v \<longleftrightarrow> isRecord v \<and> getProp v ''jsonrpc'' = Some (JStr ''2.0'')"

text \<open>\<^verbatim>\<open>getRequestId\<close>: \<open>Inl\<close> is the message of the error thrown.\<close>

definition getRequestId :: "runtime \<Rightarrow> json \<Rightarrow> string + string option" where
  "getRequestId rt body =
     (case getProp body ''id'' of
        None \<Rightarrow> Inr None
      | Some JNull \<Rightarrow> Inr None
      | Some (JStr s) \<Rightarrow> Inr (Some s)
      | Some (JNum n) \<Rightarrow> Inr (Some (String_number rt n))
      | Some _ \<Rightarrow> Inl ''Field 'body.id' must be a string or number when present.'')"

definition buildProxyErrorPayload :: "string \<Rightarrow> string \<Rightarrow> real \<Rightarrow> json" where
  "buildProxyErrorPayload id' message code =
     JObj [(''jsonrpc'', JStr ''2.0''),
           (''id'', JStr id'),
           (''error'', JObj [(''code'', JNum code), (''message'', JStr message)])]"

text \<open>The object \<^verbatim>\<open>{ session, body }\<close> published on a session's event stream.\<close>

definition sessionMessage :: "string \<Rightarrow> json \<Rightarrow> json" where
  "sessionMessage session body = JObj [(''session'', JStr session), (''body'', body)]"

definition extractMessageEnvelope :: "request \<Rightarrow> string + (string \<times> json)" where
  "extractMessageEnvelope req =
     (case reqBody req of
        None \<Rightarrow> Inl ''Request body must be a JSON object.''
      | Some payload \<Rightarrow>
          if \<not> isRecord payload then Inl ''Request body must be a JSON object.''
          else (case getProp payload ''session'' of
                  Some (JStr session) \<Rightarrow>
                    if length session = 0 then Inl ''Field 'session' must be a non-empty string.''
                    else (case getProp payload ''body'' of
                            None \<Rightarrow> Inl ''Field 'body' must be an object.''
                          | Some body \<Rightarrow>
                              if \<not> isRecord body then Inl ''Field 'body' must be an object.''
                              else Inr (session, body))
                | _ \<Rightarrow> Inl ''Field 'session' must be a non-empty string.''))"

definition headerCandidates :: "string list" where
  "headerCandidates = [''x-mcp-session'', ''x-mcp-session-id'', ''x-session-id'',
     ''x-openai-session-id'', ''x-openai-mcp-session-id'']"

definition resolveSessionIdFromRequest :: "request \<Rightarrow> string option" where
  "resolveSessionIdFromRequest req =
     (case querySession req of
        Some s \<Rightarrow>
          if length s > 0 then Some s
          else List.find (\<lambda>v. length v > 0)
                 (List.map_filter (map_of (reqHeaders req)) headerCandidates)
      | None \<Rightarrow>
          List.find (\<lambda>v. length v > 0)
            (List.map_filter (map_of (reqHeaders req)) headerCandidates))"

definition handleSse :: "int \<Rightarrow> string \<Rightarrow> request \<Rightarrow> nat \<Rightarrow> server \<Rightarrow> server" where
  "handleSse now uuid req r st =
     st\<lparr>sseBroker := snd (attach now uuid r (resolveSessionIdFromRequest req) (sseBroker st))\<rparr>"

text \<open>\<^verbatim>\<open>res.status(status).json(body)\<close> on the response object \<open>r\<close>, and \<^verbatim>\<open>r.headersSent\<close>.\<close>

definition respond :: "nat \<Rightarrow> nat \<Rightarrow> json \<Rightarrow> server \<Rightarrow> server" where
  "respond r status body st = st\<lparr>responses := responses st @ [(r, status, body)]\<rparr>"

definition headersSent :: "nat \<Rightarrow> server \<Rightarrow> bool" where
  "headersSent r st = List.member (map fst (responses st)) r"

text \<open>\<^verbatim>\<open>clearTimeout\<close>, and \<^verbatim>\<open>setTimeout\<close> with what the callback captures.\<close>

definition clearTimeout :: "nat \<Rightarrow> server \<Rightarrow> server" where
  "clearTimeout h st = st\<lparr>timers := (timers st)(h := None)\<rparr>"

definition setTimeout :: "string \<times> string \<Rightarrow> server \<Rightarrow> nat \<times> server" where
  "setTimeout captured st =
     (nextTimer st,
      st\<lparr>timers := (timers st)(nextTimer st \<mapsto> captured), nextTimer := nextTimer st + 1\<rparr>)"

text \<open>
  A submission suspended at \<^verbatim>\<open>await cli.send(body)\<close>: the request identifier, the
  response object and \<^verbatim>\<open>inlineResponse\<close>.
\<close>

datatype awaiting = Awaiting "string option" nat bool

text \<open>A string is truthy when it is not empty; \<^verbatim>\<open>undefined\<close> is not.\<close>

definition truthy :: "string option \<Rightarrow> bool" where
  "truthy s = (case s of None \<Rightarrow> False | Some x \<Rightarrow> length x > 0)"

subsection \<open>The exit listener (the same in both revisions)\<close>

definition onCliExit :: "runtime \<Rightarrow> int \<Rightarrow> server \<Rightarrow> server" where
  "onCliExit rt now st =
     (fold (\<lambda>(id', pending) st'.
              (clearTimeout (timeoutHandle pending) st')
                \<lparr>sseBroker :=
                   sendEvent rt now (sessionId pending) ''message''
                     (sessionMessage (sessionId pending)
                        (buildProxyErrorPayload id'
                           ''mabl CLI process restarted; request cancelled.'' (- 32001)))
                     (sseBroker st')\<rparr>)
        (pendingRequests st) st)
       \<lparr>pendingRequests := []\<rparr>"

subsection \<open>The earlier revision\<close>

definition clearPending :: "string \<Rightarrow> server \<Rightarrow> server" where
  "clearPending id' st =
     (case map_of (pendingRequests st) id' of
        None \<Rightarrow> st
      | Some pending \<Rightarrow>
          (clearTimeout (timeoutHandle pending) st)
            \<lparr>pendingRequests := AList.delete id' (pendingRequests st)\<rparr>)"

text \<open>The message listener: \<open>Inl\<close> is the message of an error thrown by the listener.\<close>

definition onCliMessage1 :: "runtime \<Rightarrow> int \<Rightarrow> json \<Rightarrow> server \<Rightarrow> string + server" where
  "onCliMessage1 rt now payload st =
     (if \<not> isRecord payload then Inr st
      else (case getRequestId rt payload of
              Inl message \<Rightarrow> Inl message
            | Inr id' \<Rightarrow>
                (case (if truthy id' then map_of (pendingRequests st) (the id') else None) of
                   Some pending \<Rightarrow>
                     Inr ((clearPending (the id') st)
                       \<lparr>sseBroker :=
                          sendEvent rt now (sessionId pending) ''message''
                            (sessionMessage (sessionId pending) payload) (sseBroker st)\<rparr>)
                 | None \<Rightarrow>
                     Inr (st\<lparr>sseBroker :=
                       broadcast rt now ''message'' (\<lambda>sessionId. sessionMessage sessionId payload)
                         (sseBroker st)\<rparr>))))"

text \<open>
  The callback of a request's timeout: it captured \<open>requestId\<close> and \<open>session\<close>. It
  deletes the entry of the identifier and sends, whatever the map holds.
\<close>

definition timeoutCallback1 :: "runtime \<Rightarrow> int \<Rightarrow> string \<times> string \<Rightarrow> server \<Rightarrow> server" where
  "timeoutCallback1 rt now captured st =
     (case captured of
        (requestId, session) \<Rightarrow>
          st\<lparr>pendingRequests := AList.delete requestId (pendingRequests st),
             sseBroker :=
               sendEvent rt now session ''message''
                 (sessionMessage session
                    (buildProxyErrorPayload requestId
                       ''Timed out waiting for response from mabl CLI.'' (- 32000)))
                 (sseBroker st)\<rparr>)"

text \<open>The timer \<open>h\<close> fires: an armed timer runs its callback once, a cleared one nothing.\<close>

definition timeoutFired1 :: "runtime \<Rightarrow> int \<Rightarrow> nat \<Rightarrow> server \<Rightarrow> server" where
  "timeoutFired1 rt now h st =
     (case timers st h of
        None \<Rightarrow> st
      | Some captured \<Rightarrow> timeoutCallback1 rt now captured (clearTimeout h st))"

text \<open>The \<^verbatim>\<open>catch\<close> block of the handler, and the statement after the \<^verbatim>\<open>await\<close>.\<close>

definition forwardFailed1 :: "string option \<Rightarrow> nat \<Rightarrow> server \<Rightarrow> server" where
  "forwardFailed1 requestId r st =
     respond r 503 (JObj [(''error'', JStr ''mabl CLI process unavailable.'')])
       (if truthy requestId then clearPending (the requestId) st else st)"

definition forwardSucceeded1 :: "nat \<Rightarrow> server \<Rightarrow> server" where
  "forwardSucceeded1 r st = respond r 202 (JObj [(''accepted'', JBool True)]) st"

text \<open>
  \<^verbatim>\<open>messageHandler\<close> for the request \<open>req\<close> with response object \<open>r\<close>, up to the point
  where \<^verbatim>\<open>cli.send\<close> has returned or thrown; \<open>accepted\<close> is what the write to the
  worker's input returns. When the write is not accepted the handler is suspended and
  goes on with \<open>resumed1\<close>.
\<close>

definition messageHandler1 ::
  "runtime \<Rightarrow> int \<Rightarrow> request \<Rightarrow> nat \<Rightarrow> bool \<Rightarrow> server \<Rightarrow> server \<times> awaiting option" where
  "messageHandler1 rt now req r accepted st =
     (case extractMessageEnvelope req of
        Inl message \<Rightarrow> (respond r 400 (JObj [(''error'', JStr message)]) st, None)
      | Inr (session, body) \<Rightarrow>
          (case getRequestId rt body of
             Inl message \<Rightarrow> (respond r 400 (JObj [(''error'', JStr message)]) st, None)
           | Inr requestId \<Rightarrow>
               (let st1 =
                      (if truthy requestId
                       then (case setTimeout (the requestId, session) st of
                               (handle, st') \<Rightarrow>
                                 st'\<lparr>pendingRequests :=
                                       AList.update (the requestId)
                                         \<lparr>sessionId = session, startedAt = now,
                                          timeoutHandle = handle,
                                          httpResponder = None\<rparr>
                                         (pendingRequests st')\<rparr>)
                       else st)
                in case send rt body accepted (mablCli st1) of
                     Inl error \<Rightarrow> (forwardFailed1 requestId r st1, None)
                   | Inr (cli', flushed) \<Rightarrow>
                       if flushed then (forwardSucceeded1 r (st1\<lparr>mablCli := cli'\<rparr>), None)
                       else (st1\<lparr>mablCli := cli'\<rparr>, Some (Awaiting requestId r False)))))"

text \<open>
  The suspended handler goes on: \<open>drained\<close> says whether the stream emitted
  \<^verbatim>\<open>drain\<close> (otherwise it emitted an error and \<^verbatim>\<open>cli.send\<close> rejects).
\<close>

definition resumed1 :: "bool \<Rightarrow> awaiting \<Rightarrow> server \<Rightarrow> server" where
  "resumed1 drained k st =
     (case k of
        Awaiting requestId r inline \<Rightarrow>
          if drained then forwardSucceeded1 r st else forwardFailed1 requestId r st)"

subsection \<open>The later revision\<close>

text \<open>\<^verbatim>\<open>removePending\<close> returns the entry it removed, or \<open>None\<close> for \<^verbatim>\<open>undefined\<close>.\<close>

definition removePending :: "string \<Rightarrow> server \<Rightarrow> PendingRequest option \<times> server" where
  "removePending id' st =
     (case map_of (pendingRequests st) id' of
        None \<Rightarrow> (None, st)
      | Some pending \<Rightarrow>
          (Some pending,
           (clearTimeout (timeoutHandle pending) st)
             \<lparr>pendingRequests := AList.delete id' (pendingRequests st)\<rparr>))"

definition onCliMessage2 :: "runtime \<Rightarrow> int \<Rightarrow> json \<Rightarrow> server \<Rightarrow> string + server" where
  "onCliMessage2 rt now payload st =
     (if \<not> isRecord payload then Inr st
      else (case getRequestId rt payload of
              Inl message \<Rightarrow> Inl message
            | Inr id' \<Rightarrow>
                (case (if truthy id' then removePending (the id') st else (None, st)) of
                   (Some pending, st1) \<Rightarrow>
                     (let st2 = (case httpResponder pending of
                                   Some hr \<Rightarrow> respond hr 200 payload st1
                                 | None \<Rightarrow> st1)
                      in Inr (st2\<lparr>sseBroker :=
                           sendEvent rt now (sessionId pending) ''message''
                             (sessionMessage (sessionId pending) payload) (sseBroker st2)\<rparr>))
                 | (None, st1) \<Rightarrow>
                     Inr (st1\<lparr>sseBroker :=
                       broadcast rt now ''message'' (\<lambda>sessionId. sessionMessage sessionId payload)
                         (sseBroker st1)\<rparr>))))"

text \<open>
  The callback of a request's timeout: it takes the entry of the identifier it
  captured, and returns at once when there is none.
\<close>

definition timeoutCallback2 :: "runtime \<Rightarrow> int \<Rightarrow> string \<times> string \<Rightarrow> server \<Rightarrow> server" where
  "timeoutCallback2 rt now captured st =
     (case captured of
        (requestId, session) \<Rightarrow>
          (case removePending requestId st of
             (None, st1) \<Rightarrow> st1
           | (Some pending, st1) \<Rightarrow>
               (let timeoutPayload =
                      buildProxyErrorPayload requestId
                        ''Timed out waiting for response from mabl CLI.'' (- 32000);
                    st2 = (case httpResponder pending of
                             Some hr \<Rightarrow>
                               if \<not> headersSent hr st1 then respond hr 504 timeoutPayload st1
                               else st1
                           | None \<Rightarrow> st1)
                in st2\<lparr>sseBroker :=
                       sendEvent rt now (sessionId pending) ''message''
                         (sessionMessage (sessionId pending) timeoutPayload)
                         (sseBroker st2)\<rparr>)))"

definition timeoutFired2 :: "runtime \<Rightarrow> int \<Rightarrow> nat \<Rightarrow> server \<Rightarrow> server" where
  "timeoutFired2 rt now h st =
     (case timers st h of
        None \<Rightarrow> st
      | Some captured \<Rightarrow> timeoutCallback2 rt now captured (clearTimeout h st))"

definition normalizeEnvelope :: "request \<Rightarrow> string + (string \<times> json \<times> bool)" where
  "normalizeEnvelope req =
     (let wrapped =
            (case reqBody req of
               None \<Rightarrow> None
             | Some payload \<Rightarrow>
                 if \<not> isRecord payload then None
                 else (case (getProp payload ''session'', getProp payload ''body'') of
                         (Some (JStr session), Some body) \<Rightarrow>
                           if length session > 0 \<and> isRecord body
                           then Some (session, body, False)
                           else None
                       | _ \<Rightarrow> None))
      in case wrapped of
           Some envelope \<Rightarrow> Inr envelope
         | None \<Rightarrow>
             (case reqBody req of
                None \<Rightarrow> Inl ''Unsupported MCP payload shape.''
              | Some payload \<Rightarrow>
                  if isJsonRpcPayload payload
                  then Inr (case resolveSessionIdFromRequest req of
                              Some s \<Rightarrow> s
                            | None \<Rightarrow> ''http'',
                            payload, True)
                  else Inl ''Unsupported MCP payload shape.''))"

definition forwardSucceeded2 :: "bool \<Rightarrow> nat \<Rightarrow> server \<Rightarrow> server" where
  "forwardSucceeded2 inlineResponse r st =
     (if \<not> inlineResponse then respond r 202 (JObj [(''accepted'', JBool True)]) st else st)"

definition forwardFailed2 :: "string option \<Rightarrow> bool \<Rightarrow> nat \<Rightarrow> server \<Rightarrow> server" where
  "forwardFailed2 requestId inlineResponse r st =
     (let st1 =
            (if truthy requestId
             then (case removePending (the requestId) st of
                     (Some pending, st') \<Rightarrow>
                       (case httpResponder pending of
                          Some hr \<Rightarrow>
                            if \<not> headersSent hr st'
                            then respond hr 503
                                   (buildProxyErrorPayload (the requestId)
                                      ''mabl CLI process unavailable.'' (- 32000)) st'
                            else st'
                        | None \<Rightarrow> st')
                   | (None, st') \<Rightarrow> st')
             else st)
      in if \<not> inlineResponse \<and> \<not> headersSent r st1
         then respond r 503 (JObj [(''error'', JStr ''mabl CLI process unavailable.'')]) st1
         else if inlineResponse \<and> \<not> headersSent r st1
         then respond r 503
                (buildProxyErrorPayload (case requestId of Some x \<Rightarrow> x | None \<Rightarrow> ''unknown'')
                   ''mabl CLI process unavailable.'' (- 32000)) st1
         else st1)"

definition messageHandler2 ::
  "runtime \<Rightarrow> int \<Rightarrow> request \<Rightarrow> nat \<Rightarrow> bool \<Rightarrow> server \<Rightarrow> server \<times> awaiting option" where
  "messageHandler2 rt now req r accepted st =
     (case normalizeEnvelope req of
        Inl message \<Rightarrow> (respond r 400 (JObj [(''error'', JStr message)]) st, None)
      | Inr (session, body, respondInline) \<Rightarrow>
          (case getRequestId rt body of
             Inl message \<Rightarrow> (respond r 400 (JObj [(''error'', JStr message)]) st, None)
           | Inr requestId \<Rightarrow>
               (let inlineResponse = (respondInline \<and> requestId \<noteq> None);
                    st1 =
                      (if truthy requestId
                       then (case setTimeout (the requestId, session) st of
                               (handle, st') \<Rightarrow>
                                 st'\<lparr>pendingRequests :=
                                       AList.update (the requestId)
                                         \<lparr>sessionId = session, startedAt = now,
                                          timeoutHandle = handle,
                                          httpResponder =
                                            (if inlineResponse then Some r else None)\<rparr>
                                         (pendingRequests st')\<rparr>)
                       else st)
                in case send rt body accepted (mablCli st1) of
                     Inl error \<Rightarrow> (forwardFailed2 requestId inlineResponse r st1, None)
                   | Inr (cli', flushed) \<Rightarrow>
                       if flushed
                       then (forwardSucceeded2 inlineResponse r (st1\<lparr>mablCli := cli'\<rparr>), None)
                       else (st1\<lparr>mablCli := cli'\<rparr>,
                             Some (Awaiting requestId r inlineResponse)))))"

definition resumed2 :: "bool \<Rightarrow> awaiting \<Rightarrow> server \<Rightarrow> server" where
  "resumed2 drained k st =
     (case k of
        Awaiting requestId r inlineResponse \<Rightarrow>
          if drained then forwardSucceeded2 inlineResponse r st
          else forwardFailed2 requestId inlineResponse r st)"

subsection \<open>Notions used to state the router's properties, and an example\<close>

text \<open>The two synthetic error payloads and the body of the 503 answer.\<close>

definition cancelledPayload :: "string \<Rightarrow> json" where
  "cancelledPayload id' =
     JObj [(''jsonrpc'', JStr ''2.0''),
           (''id'', JStr id'),
           (''error'', JObj [(''code'', JNum (- 32001)),
                             (''message'', JStr ''mabl CLI process restarted; request cancelled.'')])]"

definition timedOutPayload :: "string \<Rightarrow> json" where
  "timedOutPayload id' =
     JObj [(''jsonrpc'', JStr ''2.0''),
           (''id'', JStr id'),
           (''error'', JObj [(''code'', JNum (- 32000)),
                             (''message'', JStr ''Timed out waiting for response from mabl CLI.'')])]"

definition unavailableBody :: json where
  "unavailableBody = JObj [(''error'', JStr ''mabl CLI process unavailable.'')]"

text \<open>
  The example: the supervisor runs worker process 0, and the sessions \<open>a\<close> and \<open>b\<close>
  of the example broker are attached.
\<close>

definition runningCli :: MablCli where
  "runningCli = projr (startAuthenticated True True (projr (start newMablCli)))"

definition exampleServer :: server where
  "exampleServer = (newServer exampleOptions runningCli)\<lparr>sseBroker := exampleBroker\<rparr>"

text \<open>A submission \<^verbatim>\<open>{ "session": s, "body": { "id": i, "method": "ping" } }\<close>.\<close>

definition pingRequest :: "string \<Rightarrow> string \<Rightarrow> request" where
  "pingRequest s i =
     \<lparr>reqBody = Some (JObj [(''session'', JStr s),
                            (''body'', JObj [(''id'', JStr i), (''method'', JStr ''ping'')])]),
      querySession = None, reqHeaders = []\<rparr>"

text \<open>
  The example with two requests pending: identifier 1 submitted by session \<open>a\<close> at
  time 5, identifier 2 submitted by session \<open>b\<close> at time 10.
\<close>

definition twoPending :: server where
  "twoPending =
     fst (messageHandler1 exampleRuntime 10 (pingRequest ''b'' ''2'') 11 True
       (fst (messageHandler1 exampleRuntime 5 (pingRequest ''a'' ''1'') 10 True exampleServer)))"

text \<open>The example after the worker has exited with code 1: the restart is pending.\<close>

definition downServer :: server where
  "downServer = exampleServer\<lparr>mablCli := childExit 0 (Some 1) None runningCli\<rparr>"

text \<open>The example with one request pending: identifier 7, submitted by session \<open>a\<close>.\<close>

definition onePending :: server where
  "onePending =
     fst (messageHandler1 exampleRuntime 5 (pingRequest ''a'' ''7'') 10 True exampleServer)"

text \<open>A response of the worker to the request with identifier \<open>i\<close>.\<close>

definition pongResponse :: "string \<Rightarrow> json" where
  "pongResponse i = JObj [(''id'', JStr i), (''result'', JStr ''pong'')]"

text \<open>
  Session \<open>a\<close> submits the request with identifier 7 at time 5 and submits it again
  at time 6, before any response: the state after the two submissions, in the earlier
  and in the later revision.
\<close>

definition submittedTwice1 :: server where
  "submittedTwice1 =
     fst (messageHandler1 exampleRuntime 6 (pingRequest ''a'' ''7'') 11 True
       (fst (messageHandler1 exampleRuntime 5 (pingRequest ''a'' ''7'') 10 True exampleServer)))"

definition submittedTwice2 :: server where
  "submittedTwice2 =
     fst (messageHandler2 exampleRuntime 6 (pingRequest ''a'' ''7'') 11 True
       (fst (messageHandler2 exampleRuntime 5 (pingRequest ''a'' ''7'') 10 True exampleServer)))"

section \<open>Properties of the Worker Supervisor\<close>

lemma splitLines_no_newline:
  "indexOf xs newline = None \<Longrightarrow> splitLines xs = ([], xs)"
  by (induction xs) (auto split: if_splits)

lemma splitLines_first_line:
  "indexOf xs newline = Some i \<Longrightarrow>
     splitLines xs = (take i xs # fst (splitLines (drop (Suc i) xs)),
                      snd (splitLines (drop (Suc i) xs)))"
proof (induction xs arbitrary: i)
  case Nil
  then show ?case by simp
next
  case (Cons x xs)
  show ?case
  proof (cases "x = newline")
    case True
    with Cons.prems show ?thesis by (auto split: prod.splits)
  next
    case False
    with Cons.prems obtain j where j: "indexOf xs newline = Some j" "i = Suc j"
      by auto
    from Cons.IH [OF j(1)] False j(2) show ?thesis by simp
  qed
qed

lemma indexOf_None_iff: "indexOf xs c = None \<longleftrightarrow> c \<notin> set xs"
  by (induction xs) auto

lemma splitLines_rest_no_newline: "newline \<notin> set (snd (splitLines xs))"
  by (induction xs) (auto split: prod.splits list.splits)

lemma splitLines_append:
  "splitLines (xs @ ys) =
     (fst (splitLines xs) @ fst (splitLines (snd (splitLines xs) @ ys)),
      snd (splitLines (snd (splitLines xs) @ ys)))"
  by (induction xs) (auto split: prod.splits list.splits)

lemma drainLines_emitted:
  "emitted (drainLines rt now cli) = emitted cli @ framedMessages rt (stdoutBuffer cli)"
proof (induction rt now cli rule: drainLines.induct)
  case (1 rt now cli)
  show ?case
  proof (cases "indexOf (stdoutBuffer cli) newline")
    case None
    then show ?thesis
      by (subst drainLines.simps) (simp add: splitLines_no_newline framedMessages_def)
  next
    case (Some i)
    note step = "1.IH" [OF Some refl refl]
    show ?thesis
      using Some step splitLines_first_line [OF Some]
      by (subst drainLines.simps)
        (auto simp: framedMessages_def processLine_def emit_def Let_def
          split: option.splits)
  qed
qed

lemma drainLines_buffer:
  "stdoutBuffer (drainLines rt now cli) = snd (splitLines (stdoutBuffer cli))"
proof (induction rt now cli rule: drainLines.induct)
  case (1 rt now cli)
  show ?case
  proof (cases "indexOf (stdoutBuffer cli) newline")
    case None
    then show ?thesis by (subst drainLines.simps) (simp add: splitLines_no_newline)
  next
    case (Some i)
    note step = "1.IH" [OF Some refl refl]
    show ?thesis
      using Some step splitLines_first_line [OF Some]
      by (subst drainLines.simps)
        (auto simp: processLine_def emit_def Let_def split: option.splits)
  qed
qed

lemma framedMessages_append:
  "framedMessages rt (xs @ ys) =
     framedMessages rt xs @ framedMessages rt (snd (splitLines xs) @ ys)"
  unfolding framedMessages_def
  by (subst splitLines_append) (simp add: List.map_filter_def)

lemma framedMessages_partial: "newline \<notin> set xs \<Longrightarrow> framedMessages rt xs = []"
  by (simp add: framedMessages_def splitLines_no_newline indexOf_None_iff)

lemma feedChunks_emitted:
  "newline \<notin> set (stdoutBuffer cli) \<Longrightarrow>
     emitted (feedChunks rt tcs cli)
       = emitted cli @ framedMessages rt (stdoutBuffer cli @ concat (map snd tcs))
     \<and> stdoutBuffer (feedChunks rt tcs cli)
       = snd (splitLines (stdoutBuffer cli @ concat (map snd tcs)))"
proof (induction tcs arbitrary: cli)
  case Nil
  then show ?case
    by (simp add: feedChunks_def framedMessages_partial splitLines_no_newline
        indexOf_None_iff)
next
  case (Cons tc tcs)
  obtain t chunk where tc: "tc = (t, chunk)" by (cases tc)
  define cli1 where "cli1 = handleStdout rt t chunk cli"
  have e1: "emitted cli1 = emitted cli @ framedMessages rt (stdoutBuffer cli @ chunk)"
    and b1: "stdoutBuffer cli1 = snd (splitLines (stdoutBuffer cli @ chunk))"
    by (simp_all add: cli1_def handleStdout_def drainLines_emitted drainLines_buffer)
  have "newline \<notin> set (stdoutBuffer cli1)"
    by (simp add: b1 splitLines_rest_no_newline)
  from Cons.IH [OF this] have
    "emitted (feedChunks rt tcs cli1)
       = emitted cli1 @ framedMessages rt (stdoutBuffer cli1 @ concat (map snd tcs))"
    "stdoutBuffer (feedChunks rt tcs cli1)
       = snd (splitLines (stdoutBuffer cli1 @ concat (map snd tcs)))"
    by simp_all
  moreover have "feedChunks rt (tc # tcs) cli = feedChunks rt tcs cli1"
    by (simp add: feedChunks_def tc cli1_def)
  moreover have
    "framedMessages rt (stdoutBuffer cli @ concat (map snd (tc # tcs)))
       = framedMessages rt (stdoutBuffer cli @ chunk)
         @ framedMessages rt (stdoutBuffer cli1 @ concat (map snd tcs))"
    using framedMessages_append [of rt "stdoutBuffer cli @ chunk" "concat (map snd tcs)"]
    by (simp add: tc b1)
  moreover have
    "snd (splitLines (stdoutBuffer cli @ concat (map snd (tc # tcs))))
       = snd (splitLines (stdoutBuffer cli1 @ concat (map snd tcs)))"
    using splitLines_append [of "stdoutBuffer cli @ chunk" "concat (map snd tcs)"]
    by (simp add: tc b1)
  ultimately show ?case by (simp add: e1)
qed

text \<open>
  C2. Feeding the worker's output to the framer chunk by chunk emits the same message
  events, and leaves the same partial line buffered, as feeding the concatenation of
  the chunks at once. The emitted messages are those of the complete lines: each line
  trimmed, skipped when empty, parsed, and dropped when it does not parse; the text
  after the last newline stays in the buffer. The buffer never holds a newline between
  two calls, which is the hypothesis.
\<close>

theorem handleStdout_chunking:
  assumes "newline \<notin> set (stdoutBuffer cli)"
  shows "emitted (feedChunks rt tcs cli)
           = emitted (handleStdout rt t (concat (map snd tcs)) cli)
       \<and> stdoutBuffer (feedChunks rt tcs cli)
           = stdoutBuffer (handleStdout rt t (concat (map snd tcs)) cli)
       \<and> emitted (handleStdout rt t chunk cli)
           = emitted cli @ framedMessages rt (stdoutBuffer cli @ chunk)
       \<and> stdoutBuffer (handleStdout rt t chunk cli)
           = snd (splitLines (stdoutBuffer cli @ chunk))
       \<and> newline \<notin> set (stdoutBuffer (handleStdout rt t chunk cli))"
proof -
  have one: "emitted (handleStdout rt t' c cli)
        = emitted cli @ framedMessages rt (stdoutBuffer cli @ c)
      \<and> stdoutBuffer (handleStdout rt t' c cli) = snd (splitLines (stdoutBuffer cli @ c))"
    for t' c
    by (simp add: handleStdout_def drainLines_emitted drainLines_buffer)
  from feedChunks_emitted [OF assms, of rt tcs] one [of t "concat (map snd tcs)"]
    one [of t chunk]
  show ?thesis
    by (simp add: splitLines_rest_no_newline)
qed

theorem handleStdout_chunking_witness:
  "newline \<notin> set (stdoutBuffer newMablCli)
   \<and> emitted (feedChunks exampleRuntime
        [(1, ''nu''), (2, ''ll'' @ [newline] @ ''{oops'' @ [newline] @ '' tr''), (3, ''ue '' @ [newline] @ ''fal'')]
        newMablCli)
      = emitted (handleStdout exampleRuntime 4
          (''null'' @ [newline] @ ''{oops'' @ [newline] @ '' true '' @ [newline] @ ''fal'') newMablCli)
   \<and> emitted (handleStdout exampleRuntime 4
          (''null'' @ [newline] @ ''{oops'' @ [newline] @ '' true '' @ [newline] @ ''fal'') newMablCli)
      = [Message JNull, Message (JBool True)]
   \<and> stdoutBuffer (handleStdout exampleRuntime 4
          (''null'' @ [newline] @ ''{oops'' @ [newline] @ '' true '' @ [newline] @ ''fal'') newMablCli)
      = ''fal''"
proof -
  have h: "newline \<notin> set (stdoutBuffer newMablCli)"
    by (simp add: newMablCli_def)
  have "framedMessages exampleRuntime
          (''null'' @ [newline] @ ''{oops'' @ [newline] @ '' true '' @ [newline] @ ''fal'')
        = [Message JNull, Message (JBool True)]"
    by (simp add: framedMessages_def exampleRuntime_def trim_def isWhiteSpace_def
        newline_def List.map_filter_simps)
  moreover have "snd (splitLines
          (''null'' @ [newline] @ ''{oops'' @ [newline] @ '' true '' @ [newline] @ ''fal''))
        = ''fal''"
    by (simp add: newline_def)
  ultimately show ?thesis
    using h handleStdout_chunking [OF h, of exampleRuntime
        "[(1, ''nu''), (2, ''ll'' @ [newline] @ ''{oops'' @ [newline] @ '' tr''), (3, ''ue '' @ [newline] @ ''fal'')]"
        4 "''null'' @ [newline] @ ''{oops'' @ [newline] @ '' true '' @ [newline] @ ''fal''"]
    by (simp add: newMablCli_def)
qed

text \<open>
  What \<^verbatim>\<open>stop\<close> does establish, from every state: the supervisor is closed and
  holds no child, a later \<^verbatim>\<open>start\<close> fails, and a later call of \<^verbatim>\<open>scheduleRestart\<close>
  schedules nothing.
\<close>

lemma stop_closes:
  "closed (stop cli) \<and> child (stop cli) = None \<and> \<not> isRunning (stop cli)
   \<and> start (stop cli) = Inl StartAfterShutdown
   \<and> scheduleRestart (stop cli) = stop cli"
  by (simp add: stop_def start_def scheduleRestart_def isRunning_def Let_def
      split: option.splits)

text \<open>
  C3. The worker (process 0) is running and exits with code 1: the restart is
  scheduled and its delay starts. \<^verbatim>\<open>stop\<close> is called while the delay is elapsing. When
  the delay has elapsed, the suspended \<^verbatim>\<open>scheduleRestart\<close> goes on without looking at
  \<open>closed\<close> again: it spawns process 1, which becomes the child of a closed supervisor.
\<close>

theorem stop_during_restart_delay:
  "(let running = projr (startAuthenticated True True (projr (start newMablCli)));
        crashed = childExit 0 (Some 1) None running;
        stopped = stop crashed;
        later = restartDelayElapsed True stopped
    in child running = Some 0 \<and> spawned running = 1 \<and> isRunning running
       \<and> emitted crashed = [Exit (Some 1) None] \<and> restarting crashed \<and> delays crashed = 1
       \<and> closed stopped \<and> child stopped = None \<and> spawned stopped = 1 \<and> delays stopped = 1
       \<and> closed later \<and> child later = Some 1 \<and> spawned later = 2 \<and> isRunning later
       \<and> restarts later = 1)"
  by (simp add: Let_def start_def startAuthenticated_def spawnCli_def newMablCli_def
      childExit_def emit_def scheduleRestart_def stop_def restartDelayElapsed_def
      isRunning_def)

section \<open>Properties of the Session Broker\<close>

lemma fold_unique:
  "distinct (map k xs) \<Longrightarrow> x \<in> set xs \<Longrightarrow> k x = v \<Longrightarrow>
     fold (\<lambda>y s. if k y = v then F y s else s) xs s0 = F x s0"
proof (induction xs arbitrary: s0)
  case Nil
  then show ?case by simp
next
  case (Cons y ys)
  show ?case
  proof (cases "y = x")
    case True
    from Cons.prems(1) True have "k x \<notin> k ` set ys"
      by simp
    then have "k z \<noteq> v" if "z \<in> set ys" for z
      using that Cons.prems(3) by (metis imageI)
    then have "fold (\<lambda>y s. if k y = v then F y s else s) ys s1 = s1" for s1
      by (induction ys arbitrary: s1) auto
    with True Cons.prems(3) show ?thesis by simp
  next
    case False
    with Cons.prems have "x \<in> set ys" "k y \<noteq> v" "distinct (map k ys)"
      by auto
    with Cons.IH Cons.prems(3) show ?thesis by simp
  qed
qed

lemma fold_untouched:
  "(\<And>y. y \<in> set xs \<Longrightarrow> \<not> P y) \<Longrightarrow> fold (\<lambda>y s. if P y then F y s else s) xs s0 = s0"
  by (induction xs arbitrary: s0) auto

subsection \<open>The heartbeat sweep\<close>

lemma heartbeatClient_options [simp]:
  "options (heartbeatClient rt now entry b) = options b"
  by (cases entry)
    (simp add: heartbeatClient_def removeClient_def endStream_def writeHeartbeat_def
      resWrite_def)

lemma heartbeatClient_streams:
  "streams (heartbeatClient rt now entry b) r
   = (if res (snd entry) = r
      then (if isIdle now b (snd entry) then (streams b r)\<lparr>ended := True\<rparr>
            else (streams b r)\<lparr>written := written (streams b r) @ [heartbeatLine rt now]\<rparr>)
      else streams b r)"
  by (cases entry)
    (simp add: heartbeatClient_def removeClient_def endStream_def writeHeartbeat_def
      resWrite_def isIdle_def heartbeatLine_def)

lemma heartbeatClient_clients:
  "clients (heartbeatClient rt now entry b)
   = (if isIdle now b (snd entry) then AList.delete (fst entry) (clients b) else clients b)"
  by (cases entry)
    (simp add: heartbeatClient_def removeClient_def endStream_def writeHeartbeat_def
      resWrite_def isIdle_def)

lemma isIdle_heartbeatClient [simp]:
  "isIdle now (heartbeatClient rt now' entry b) client = isIdle now b client"
  by (simp add: isIdle_def)

lemma heartbeat_fold_idle [simp]:
  "isIdle now (fold (heartbeatClient rt now') cs b) client = isIdle now b client"
  by (induction cs arbitrary: b) simp_all

lemma heartbeat_fold_streams:
  "streams (fold (heartbeatClient rt now) cs b) r
   = fold (\<lambda>y s. if (res \<circ> snd) y = r
                  then (if isIdle now b (snd y) then s\<lparr>ended := True\<rparr>
                        else s\<lparr>written := written s @ [heartbeatLine rt now]\<rparr>)
                  else s) cs (streams b r)"
  by (induction cs arbitrary: b) (simp_all add: heartbeatClient_streams cong: if_cong)

lemma heartbeat_fold_clients:
  "map_of (clients (fold (heartbeatClient rt now) cs b)) sid
   = fold (\<lambda>y v. if fst y = sid
                  then (if isIdle now b (snd y) then None else v)
                  else v) cs (map_of (clients b) sid)"
  by (induction cs arbitrary: b)
    (simp_all add: heartbeatClient_clients delete_conv' cong: if_cong)

lemma heartbeat_streams:
  assumes "brokerInv b" and "(sid, client) \<in> set (clients b)"
  shows "streams (heartbeat rt now b) (res client)
         = (if isIdle now b client then (streams b (res client))\<lparr>ended := True\<rparr>
            else (streams b (res client))
                   \<lparr>written := written (streams b (res client)) @ [heartbeatLine rt now]\<rparr>)"
proof -
  from assms have d: "distinct (map (res \<circ> snd) (clients b))"
    by (simp add: brokerInv_def)
  show ?thesis
    unfolding heartbeat_def heartbeat_fold_streams
    by (subst fold_unique [OF d assms(2)]) simp_all
qed

lemma heartbeat_clients:
  assumes "brokerInv b"
  shows "map_of (clients (heartbeat rt now b)) sid
         = (case map_of (clients b) sid of
              None \<Rightarrow> None
            | Some client \<Rightarrow> if isIdle now b client then None else Some client)"
proof (cases "map_of (clients b) sid")
  case None
  then have "fst y \<noteq> sid" if "y \<in> set (clients b)" for y
    using that by (metis map_of_eq_None_iff imageI)
  then show ?thesis
    unfolding heartbeat_def heartbeat_fold_clients
    by (subst fold_untouched) (simp_all add: None)
next
  case (Some client)
  from assms have d: "distinct (map fst (clients b))"
    by (simp add: brokerInv_def)
  from Some have m: "(sid, client) \<in> set (clients b)"
    by (rule map_of_SomeD)
  show ?thesis
    unfolding heartbeat_def heartbeat_fold_clients
    by (subst fold_unique [OF d m]) (simp_all add: Some)
qed



lemma heartbeat_fold_options [simp]:
  "options (fold (heartbeatClient rt now) cs b) = options b"
  by (induction cs arbitrary: b) simp_all

lemma heartbeat_options [simp]: "options (heartbeat rt now b) = options b"
  by (simp add: heartbeat_def)

lemma exampleBroker_clients:
  "clients exampleBroker =
     [(''a'', \<lparr>clientSessionId = ''a'', res = 0, connectedAt = 0, lastEventAt = 0\<rparr>),
      (''b'', \<lparr>clientSessionId = ''b'', res = 1, connectedAt = 100000, lastEventAt = 100000\<rparr>)]"
  by (simp add: exampleBroker_def attachSession_def newSseBroker_def Let_def resWrite_def
      setHeader_def endStream_def)

lemma exampleBroker_options: "options exampleBroker = exampleOptions"
  by (simp add: exampleBroker_def attachSession_def newSseBroker_def Let_def resWrite_def
      setHeader_def endStream_def)

lemma exampleBroker_inv: "brokerInv exampleBroker"
  by (simp add: brokerInv_def exampleBroker_clients)

text \<open>
  C9. One sweep of the heartbeat, for every attached session: when the time since
  its last event exceeds the idle timeout, its response is ended and the session is
  no longer registered; otherwise exactly the heartbeat comment is appended to what
  was written to its response, which stays open, and the session stays registered
  as it was.
\<close>

theorem heartbeat_sweep:
  assumes "brokerInv b" and "(sid, client) \<in> set (clients b)"
  shows "(if now - lastEventAt client > idleTimeoutMs (options b)
          then ended (streams (heartbeat rt now b) (res client))
               \<and> map_of (clients (heartbeat rt now b)) sid = None
          else written (streams (heartbeat rt now b) (res client))
                 = written (streams b (res client))
                   @ ['': heartbeat '' @ String_number rt (of_int now) @ [newline, newline]]
               \<and> ended (streams (heartbeat rt now b) (res client))
                 = ended (streams b (res client))
               \<and> map_of (clients (heartbeat rt now b)) sid = Some client)"
proof -
  from assms have "map_of (clients b) sid = Some client"
    by (simp add: brokerInv_def)
  with heartbeat_streams [OF assms, of rt now] heartbeat_clients [OF assms(1), of rt now sid]
  show ?thesis
    by (simp add: isIdle_def heartbeatLine_def)
qed

theorem heartbeat_sweep_witness:
  "brokerInv exampleBroker
   \<and> ended (streams (heartbeat exampleRuntime 130000 exampleBroker) 0)
   \<and> map_of (clients (heartbeat exampleRuntime 130000 exampleBroker)) ''a'' = None
   \<and> written (streams (heartbeat exampleRuntime 130000 exampleBroker) 1)
       = written (streams exampleBroker 1) @ ['': heartbeat 130000'' @ [newline, newline]]
   \<and> \<not> ended (streams (heartbeat exampleRuntime 130000 exampleBroker) 1)
   \<and> map_of (clients (heartbeat exampleRuntime 130000 exampleBroker)) ''b''
       = Some \<lparr>clientSessionId = ''b'', res = 1, connectedAt = 100000, lastEventAt = 100000\<rparr>"
proof -
  have a: "(''a'', \<lparr>clientSessionId = ''a'', res = 0, connectedAt = 0, lastEventAt = 0\<rparr>)
      \<in> set (clients exampleBroker)"
    and b: "(''b'', \<lparr>clientSessionId = ''b'', res = 1, connectedAt = 100000, lastEventAt = 100000\<rparr>)
      \<in> set (clients exampleBroker)"
    by (simp_all add: exampleBroker_clients)
  have n: "String_number exampleRuntime 130000 = ''130000''"
    by (simp add: exampleRuntime_def showInt_def showNat.simps digitChar_def)
  have e: "\<not> ended (streams exampleBroker 1)"
    by (simp add: exampleBroker_def attachSession_def newSseBroker_def Let_def resWrite_def
      setHeader_def endStream_def)
  from heartbeat_sweep [OF exampleBroker_inv a, of 130000 exampleRuntime]
    heartbeat_sweep [OF exampleBroker_inv b, of 130000 exampleRuntime] e
  show ?thesis
    by (simp add: exampleBroker_inv exampleBroker_options exampleOptions_def n)
qed

subsection \<open>Writing events\<close>

lemma writeEvent_streams:
  "streams (writeEvent rt now sid client event payload b) r
   = (if res client = r
      then (streams b r)\<lparr>written := written (streams b r) @ eventFrames rt event payload\<rparr>
      else streams b r)"
  by (simp add: writeEvent_def eventFrames_def resWrite_def Let_def split: option.splits)

lemma writeEvent_clients:
  "clients (writeEvent rt now sid client event payload b)
   = (if JSON_stringify rt payload = None then clients b
      else AList.map_entry sid (\<lambda>c. c\<lparr>lastEventAt := now\<rparr>) (clients b))"
  by (simp add: writeEvent_def resWrite_def Let_def split: option.splits)

lemma writeEvent_options [simp]:
  "options (writeEvent rt now sid client event payload b) = options b"
  by (simp add: writeEvent_def resWrite_def Let_def split: option.splits)

lemma map_entry_keys [simp]: "map fst (AList.map_entry k f al) = map fst al"
  by (induction al) auto

lemma map_entry_res [simp]:
  "map (res \<circ> snd) (AList.map_entry k (\<lambda>c. c\<lparr>lastEventAt := t\<rparr>) al) = map (res \<circ> snd) al"
  by (induction al) auto

lemma map_of_map_entry_at:
  "map_of (AList.map_entry k f al) k'
   = (if k' = k then map_option f (map_of al k) else map_of al k')"
  by (simp add: map_of_map_entry split: option.splits)

lemma map_of_map_entry_res:
  "map_option res (map_of (AList.map_entry k (\<lambda>c. c\<lparr>lastEventAt := t\<rparr>) al) k')
   = map_option res (map_of al k')"
  by (induction al) auto

lemma writeEvent_brokerInv: "brokerInv b \<Longrightarrow> brokerInv (writeEvent rt now sid client event payload b)"
  by (simp add: brokerInv_def writeEvent_clients)

lemma sendEvent_streams:
  "streams (sendEvent rt now sid event payload b) r
   = (if map_option res (map_of (clients b) sid) = Some r
      then (streams b r)\<lparr>written := written (streams b r) @ eventFrames rt event payload\<rparr>
      else streams b r)"
  by (auto simp: sendEvent_def writeEvent_streams split: option.splits)

lemma sendEvent_clients:
  "map_of (clients (sendEvent rt now sid event payload b)) k
   = (if k = sid \<and> JSON_stringify rt payload \<noteq> None
      then map_option (\<lambda>c. c\<lparr>lastEventAt := now\<rparr>) (map_of (clients b) k)
      else map_of (clients b) k)"
  by (auto simp: sendEvent_def writeEvent_clients map_of_map_entry_at split: option.splits)

lemma sendEvent_res [simp]:
  "map_option res (map_of (clients (sendEvent rt now sid event payload b)) k)
   = map_option res (map_of (clients b) k)"
  by (auto simp: sendEvent_def writeEvent_clients map_of_map_entry_res split: option.splits)

lemma sendEvent_brokerInv: "brokerInv b \<Longrightarrow> brokerInv (sendEvent rt now sid event payload b)"
  by (simp add: sendEvent_def writeEvent_brokerInv split: option.splits)

lemma sendEvent_unattached:
  "map_of (clients b) sid = None \<Longrightarrow> sendEvent rt now sid event payload b = b"
  by (simp add: sendEvent_def)

lemma broadcast_fold_streams:
  "streams (fold (\<lambda>(sessionId, client) b'.
             writeEvent rt now sessionId client event (payloadBuilder sessionId) b') cs b) r
   = fold (\<lambda>y s. if (res \<circ> snd) y = r
                  then s\<lparr>written := written s @ eventFrames rt event (payloadBuilder (fst y))\<rparr>
                  else s) cs (streams b r)"
proof (induction cs arbitrary: b)
  case Nil
  then show ?case by simp
next
  case (Cons c cs)
  obtain sid client where "c = (sid, client)" by (cases c)
  then show ?case by (simp add: Cons.IH writeEvent_streams)
qed


lemma broadcast_streams:
  assumes "brokerInv b" and "(sid, client) \<in> set (clients b)"
  shows "streams (broadcast rt now event payloadBuilder b) (res client)
         = (streams b (res client))
             \<lparr>written := written (streams b (res client))
                @ eventFrames rt event (payloadBuilder sid)\<rparr>"
proof -
  from assms have d: "distinct (map (res \<circ> snd) (clients b))"
    by (simp add: brokerInv_def)
  show ?thesis
    unfolding broadcast_def broadcast_fold_streams
    by (subst fold_unique [OF d assms(2)]) simp_all
qed

lemma broadcast_streams_other:
  assumes "r \<notin> (res \<circ> snd) ` set (clients b)"
  shows "streams (broadcast rt now event payloadBuilder b) r = streams b r"
  unfolding broadcast_def broadcast_fold_streams
  using assms by (subst fold_untouched) auto


subsection \<open>The idle clock\<close>

lemma isIdle_heartbeat [simp]: "isIdle t (heartbeat rt now b) c = isIdle t b c"
  by (simp add: isIdle_def)








subsection \<open>Replacing a session's stream\<close>

text \<open>
  What \<^verbatim>\<open>attach\<close> does establish at once: the session's earlier response is ended, and
  the session is registered with the new response and no other.
\<close>

lemma attachSession_replaces:
  assumes "map_of (clients b) sid = Some old" and "res old \<noteq> r"
  shows "ended (streams (attachSession now sid r b) (res old))
       \<and> map_of (clients (attachSession now sid r b)) sid
           = Some \<lparr>clientSessionId = sid, res = r, connectedAt = now, lastEventAt = now\<rparr>
       \<and> ended (streams (attachSession now sid r b) r) = ended (streams b r)"
  using assms
  by (simp add: attachSession_def Let_def resWrite_def setHeader_def endStream_def
      update_conv')

text \<open>
  C6. Session \<open>s1\<close> attaches with response 0, then again with response 1: response 0 is
  ended and the session is registered with response 1. Then the \<^verbatim>\<open>close\<close> event of
  response 0 fires. Its listener removes the client stored under \<open>s1\<close>, which by now
  is the new one: response 1 is still open, but no session is registered, and an
  event sent to \<open>s1\<close> is written nowhere.
\<close>

theorem replaced_stream_close_event:
  "(let b0 = newSseBroker exampleOptions;
        b1 = snd (attach 1000 ''uuid-1'' 0 (Some ''s1'') b0);
        b2 = snd (attach 2000 ''uuid-2'' 1 (Some ''s1'') b1);
        b3 = streamClosed 0 b2;
        b4 = sendEvent exampleRuntime 3000 ''s1'' ''message'' (JObj []) b3
    in ended (streams b2 0) \<and> \<not> ended (streams b2 1)
       \<and> clients b2
           = [(''s1'', \<lparr>clientSessionId = ''s1'', res = 1, connectedAt = 2000, lastEventAt = 2000\<rparr>)]
       \<and> closeListeners b2 = [(0, ''s1''), (1, ''s1'')]
       \<and> clients b3 = [] \<and> \<not> ended (streams b3 1)
       \<and> b4 = b3
       \<and> written (streams b4 1) = written (streams b2 1))"
  by (simp add: Let_def attach_def attachSession_def newSseBroker_def resWrite_def
      setHeader_def endStream_def streamClosed_def removeClient_def sendEvent_def)

section \<open>Properties of the Correlation Router\<close>

lemma clearTimeout_fields [simp]:
  "pendingRequests (clearTimeout h st) = pendingRequests st"
  "sseBroker (clearTimeout h st) = sseBroker st"
  "mablCli (clearTimeout h st) = mablCli st"
  "nextTimer (clearTimeout h st) = nextTimer st"
  "responses (clearTimeout h st) = responses st"
  "timers (clearTimeout h st) = (timers st)(h := None)"
  by (simp_all add: clearTimeout_def)

lemma respond_fields [simp]:
  "pendingRequests (respond r status body st) = pendingRequests st"
  "sseBroker (respond r status body st) = sseBroker st"
  "mablCli (respond r status body st) = mablCli st"
  "nextTimer (respond r status body st) = nextTimer st"
  "timers (respond r status body st) = timers st"
  "responses (respond r status body st) = responses st @ [(r, status, body)]"
  by (simp_all add: respond_def)

subsection \<open>Sending a sequence of events\<close>

lemma sendEvents_streams:
  "streams (fold (\<lambda>m. sendEvent rt now (fst m) event (snd m)) ms b) r
   = (streams b r)\<lparr>written := written (streams b r)
       @ concat (map (\<lambda>m. if map_option res (map_of (clients b) (fst m)) = Some r
                           then eventFrames rt event (snd m) else []) ms)\<rparr>"
proof (induction ms arbitrary: b)
  case Nil
  then show ?case by simp
next
  case (Cons m ms)
  show ?case
    by (auto simp: Cons.IH sendEvent_streams)
qed

subsection \<open>The exit listener\<close>

lemma cancelledPayload_eq:
  "buildProxyErrorPayload id' ''mabl CLI process restarted; request cancelled.'' (- 32001)
   = cancelledPayload id'"
  by (simp add: buildProxyErrorPayload_def cancelledPayload_def)

lemma timedOutPayload_eq:
  "buildProxyErrorPayload id' ''Timed out waiting for response from mabl CLI.'' (- 32000)
   = timedOutPayload id'"
  by (simp add: buildProxyErrorPayload_def timedOutPayload_def)

lemma onCliExit_fold_broker:
  "sseBroker (fold (\<lambda>(id', pending) st'.
       (clearTimeout (timeoutHandle pending) st')
         \<lparr>sseBroker := sendEvent rt now (sessionId pending) ''message''
            (sessionMessage (sessionId pending) (cancelledPayload id'))
            (sseBroker st')\<rparr>) ps st)
   = fold (\<lambda>m. sendEvent rt now (fst m) ''message'' (snd m))
       (map (\<lambda>(id', pending).
               (sessionId pending, sessionMessage (sessionId pending) (cancelledPayload id'))) ps)
       (sseBroker st)"
proof (induction ps arbitrary: st)
  case Nil
  then show ?case by simp
next
  case (Cons p ps)
  obtain id' pending where "p = (id', pending)" by (cases p)
  then show ?case
    by (simp add: Cons.IH)
qed

lemma onCliExit_fold_timers:
  "timers (fold (\<lambda>(id', pending) st'.
       (clearTimeout (timeoutHandle pending) st')
         \<lparr>sseBroker := sendEvent rt now (sessionId pending) ''message''
            (sessionMessage (sessionId pending) (cancelledPayload id'))
            (sseBroker st')\<rparr>) ps st) h
   = (if h \<in> (timeoutHandle \<circ> snd) ` set ps then None else timers st h)"
proof (induction ps arbitrary: st)
  case Nil
  then show ?case by simp
next
  case (Cons p ps)
  obtain id' pending where "p = (id', pending)" by (cases p)
  then show ?case
    by (simp add: Cons.IH)
qed

lemma brokerInv_stream_owner:
  assumes "brokerInv b" and "map_of (clients b) sid = Some client"
  shows "(map_option res (map_of (clients b) s) = Some (res client)) = (s = sid)"
proof
  assume "map_option res (map_of (clients b) s) = Some (res client)"
  then obtain c where c: "map_of (clients b) s = Some c" "res c = res client"
    by auto
  from c(1) assms(2) have "(s, c) \<in> set (clients b)" "(sid, client) \<in> set (clients b)"
    by (auto dest: map_of_SomeD)
  moreover from assms(1) have "inj_on (res \<circ> snd) (set (clients b))"
    by (simp add: brokerInv_def distinct_map)
  moreover have "(res \<circ> snd) (s, c) = (res \<circ> snd) (sid, client)"
    using c(2) by simp
  ultimately have "(s, c) = (sid, client)"
    by (metis inj_onD)
  then show "s = sid" by simp
next
  assume "s = sid"
  with assms(2) show "map_option res (map_of (clients b) s) = Some (res client)"
    by simp
qed

lemma brokerInv_stream_owner':
  assumes "brokerInv b" and "map_of (clients b) sid = Some client"
  shows "(\<exists>z. map_of (clients b) s = Some z \<and> res z = res client) = (s = sid)"
  using brokerInv_stream_owner [OF assms, of s] by auto

lemma concat_map_if:
  "concat (map (\<lambda>m. if P m then F m else []) ms) = concat (map F (filter P ms))"
  by (induction ms) auto

lemma sendEvents_session_stream:
  assumes "brokerInv b" and "map_of (clients b) sid = Some client"
  shows "written (streams (fold (\<lambda>m. sendEvent rt now (fst m) event (snd m)) ms b) (res client))
         = written (streams b (res client))
           @ concat (map (\<lambda>m. eventFrames rt event (snd m)) (filter (\<lambda>m. fst m = sid) ms))"
  by (simp add: sendEvents_streams brokerInv_stream_owner' [OF assms] concat_map_if)

lemma twoPending_state:
  "pendingRequests twoPending
     = [(''1'', \<lparr>sessionId = ''a'', startedAt = 5, timeoutHandle = 0, httpResponder = None\<rparr>),
        (''2'', \<lparr>sessionId = ''b'', startedAt = 10, timeoutHandle = 1, httpResponder = None\<rparr>)]"
  "sseBroker twoPending = exampleBroker"
  "timers twoPending = (\<lambda>_. None)(0 \<mapsto> (''1'', ''a''), 1 \<mapsto> (''2'', ''b''))"
  "responses twoPending
     = [(10, 202, JObj [(''accepted'', JBool True)]), (11, 202, JObj [(''accepted'', JBool True)])]"
  by (simp_all add: twoPending_def messageHandler1_def exampleServer_def newServer_def
      pingRequest_def extractMessageEnvelope_def isRecord_def getProp_def getRequestId_def
      truthy_def setTimeout_def send_def runningCli_def start_def startAuthenticated_def
      spawnCli_def newMablCli_def exampleRuntime_def forwardSucceeded1_def respond_def
      Let_def)

text \<open>
  C8. When the supervisor reports the worker's exit, no request is pending
  afterwards, the timeout of every entry that was pending is disarmed, and the
  stream of every attached session receives, in the order of the entries, one
  message event for each entry the session owned: the jsonrpc error with the
  entry's request identifier, code -32001 and the request-cancelled message.
\<close>

theorem onCliExit_cancels_pending:
  assumes "brokerInv (sseBroker st)"
  shows "pendingRequests (onCliExit rt now st) = []
       \<and> (\<forall>entry\<in>set (pendingRequests st).
            timers (onCliExit rt now st) (timeoutHandle (snd entry)) = None)
       \<and> (\<forall>sid client. map_of (clients (sseBroker st)) sid = Some client \<longrightarrow>
            written (streams (sseBroker (onCliExit rt now st)) (res client))
            = written (streams (sseBroker st) (res client))
              @ concat (map (\<lambda>(id', pending).
                               eventFrames rt ''message''
                                 (JObj [(''session'', JStr sid),
                                        (''body'', JObj [(''jsonrpc'', JStr ''2.0''),
                                           (''id'', JStr id'),
                                           (''error'', JObj [(''code'', JNum (- 32001)),
                                              (''message'', JStr
                                                ''mabl CLI process restarted; request cancelled.'')])])]))
                         (filter (\<lambda>(id', pending). sessionId pending = sid)
                            (pendingRequests st))))"
proof -
  have p: "pendingRequests (onCliExit rt now st) = []"
    by (simp add: onCliExit_def)
  have t: "timers (onCliExit rt now st) (timeoutHandle (snd entry)) = None"
    if "entry \<in> set (pendingRequests st)" for entry
    using that
    by (simp add: onCliExit_def cancelledPayload_eq onCliExit_fold_timers)
  have w: "written (streams (sseBroker (onCliExit rt now st)) (res client))
      = written (streams (sseBroker st) (res client))
        @ concat (map (\<lambda>(id', pending).
                         eventFrames rt ''message'' (sessionMessage sid (cancelledPayload id')))
                   (filter (\<lambda>(id', pending). sessionId pending = sid) (pendingRequests st)))"
    if "map_of (clients (sseBroker st)) sid = Some client" for sid client
  proof -
    have "concat (map (\<lambda>m. eventFrames rt ''message'' (snd m))
            (filter (\<lambda>m. fst m = sid)
              (map (\<lambda>(id', pending).
                      (sessionId pending, sessionMessage (sessionId pending) (cancelledPayload id')))
                 ps)))
        = concat (map (\<lambda>(id', pending).
                         eventFrames rt ''message'' (sessionMessage sid (cancelledPayload id')))
                   (filter (\<lambda>(id', pending). sessionId pending = sid) ps))" for ps
      by (induction ps) auto
    then show ?thesis
      by (simp add: onCliExit_def cancelledPayload_eq onCliExit_fold_broker
          sendEvents_session_stream [OF assms that])
  qed
  from p t w show ?thesis
    by (simp add: sessionMessage_def cancelledPayload_def)
qed

lemma exampleBroker_written:
  "written (streams exampleBroker 0)
     = [''event: ready'' @ [newline], ''data: {\"session\":\"a\"}'' @ [newline, newline]]"
  "written (streams exampleBroker (Suc 0))
     = [''event: ready'' @ [newline], ''data: {\"session\":\"b\"}'' @ [newline, newline]]"
  by (simp_all add: exampleBroker_def attachSession_def newSseBroker_def Let_def resWrite_def
      setHeader_def endStream_def quoted_def)

theorem onCliExit_cancels_pending_witness:
  "brokerInv (sseBroker twoPending)
   \<and> pendingRequests (onCliExit exampleRuntime 20 twoPending) = []
   \<and> timers (onCliExit exampleRuntime 20 twoPending) 0 = None
   \<and> timers (onCliExit exampleRuntime 20 twoPending) 1 = None
   \<and> written (streams (sseBroker (onCliExit exampleRuntime 20 twoPending)) 0)
       = [''event: ready'' @ [newline],
          ''data: {\"session\":\"a\"}'' @ [newline, newline],
          ''event: message'' @ [newline],
          ''data: {\"session\":\"a\",\"body\":{\"jsonrpc\":\"2.0\",\"id\":\"1\",\"error\":{\"code\":-32001,\"message\":\"mabl CLI process restarted; request cancelled.\"}}}''
            @ [newline, newline]]
   \<and> written (streams (sseBroker (onCliExit exampleRuntime 20 twoPending)) 1)
       = [''event: ready'' @ [newline],
          ''data: {\"session\":\"b\"}'' @ [newline, newline],
          ''event: message'' @ [newline],
          ''data: {\"session\":\"b\",\"body\":{\"jsonrpc\":\"2.0\",\"id\":\"2\",\"error\":{\"code\":-32001,\"message\":\"mabl CLI process restarted; request cancelled.\"}}}''
            @ [newline, newline]]"
proof -
  have inv: "brokerInv (sseBroker twoPending)"
    by (simp add: twoPending_state exampleBroker_inv)
  note exit = onCliExit_cancels_pending [OF inv, of exampleRuntime 20]
  have a: "map_of (clients (sseBroker twoPending)) ''a''
      = Some \<lparr>clientSessionId = ''a'', res = 0, connectedAt = 0, lastEventAt = 0\<rparr>"
    and b: "map_of (clients (sseBroker twoPending)) ''b''
      = Some \<lparr>clientSessionId = ''b'', res = 1, connectedAt = 100000, lastEventAt = 100000\<rparr>"
    by (simp_all add: twoPending_state exampleBroker_clients)
  have s: "JSON_stringify exampleRuntime j = Some (render j)" for j
    by (simp add: exampleRuntime_def)
  from exit have "pendingRequests (onCliExit exampleRuntime 20 twoPending) = []"
    by blast
  moreover from exit have "timers (onCliExit exampleRuntime 20 twoPending) 0 = None"
    "timers (onCliExit exampleRuntime 20 twoPending) 1 = None"
    by (simp_all add: twoPending_state)
  moreover from exit [THEN conjunct2, THEN conjunct2, rule_format, OF a]
  have "written (streams (sseBroker (onCliExit exampleRuntime 20 twoPending)) 0)
       = [''event: ready'' @ [newline],
          ''data: {\"session\":\"a\"}'' @ [newline, newline],
          ''event: message'' @ [newline],
          ''data: {\"session\":\"a\",\"body\":{\"jsonrpc\":\"2.0\",\"id\":\"1\",\"error\":{\"code\":-32001,\"message\":\"mabl CLI process restarted; request cancelled.\"}}}''
            @ [newline, newline]]"
    by (simp add: twoPending_state exampleBroker_written eventFrames_def s quoted_def
        showInt_def showNat.simps digitChar_def)
  moreover from exit [THEN conjunct2, THEN conjunct2, rule_format, OF b]
  have "written (streams (sseBroker (onCliExit exampleRuntime 20 twoPending)) 1)
       = [''event: ready'' @ [newline],
          ''data: {\"session\":\"b\"}'' @ [newline, newline],
          ''event: message'' @ [newline],
          ''data: {\"session\":\"b\",\"body\":{\"jsonrpc\":\"2.0\",\"id\":\"2\",\"error\":{\"code\":-32001,\"message\":\"mabl CLI process restarted; request cancelled.\"}}}''
            @ [newline, newline]]"
    by (simp add: twoPending_state exampleBroker_written eventFrames_def s quoted_def
        showInt_def showNat.simps digitChar_def)
  ultimately show ?thesis
    using inv by blast
qed

subsection \<open>Messages that match no pending entry\<close>

text \<open>A message that is not an object is dropped by the listener, in both revisions.\<close>

lemma non_object_message_dropped:
  "\<not> isRecord payload \<Longrightarrow>
     onCliMessage1 rt now payload st = Inr st \<and> onCliMessage2 rt now payload st = Inr st"
  by (simp add: onCliMessage1_def onCliMessage2_def)

lemma removePending_absent:
  "map_of (pendingRequests st) id' = None \<Longrightarrow> removePending id' st = (None, st)"
  by (simp add: removePending_def)

lemma removePending_present:
  "map_of (pendingRequests st) id' = Some pending \<Longrightarrow>
     removePending id' st
     = (Some pending,
        (clearTimeout (timeoutHandle pending) st)
          \<lparr>pendingRequests := AList.delete id' (pendingRequests st)\<rparr>)"
  by (simp add: removePending_def)

text \<open>
  C5, as the code has it. A message of the worker that is an object (or an array)
  and carries no identifier, a null identifier, an empty one, or a string or number
  identifier under which nothing is pending, is broadcast: the router's state changes
  by one call of \<^verbatim>\<open>broadcast\<close> whose payload function wraps the message with the
  session's own identifier, and (in a broker with one response object per session)
  the stream of every attached session receives exactly the frames of its own
  payload. Both revisions do this.
\<close>

theorem unmatched_message_broadcast:
  assumes "isRecord payload"
    and "getRequestId rt payload = Inr id'"
    and "\<not> truthy id' \<or> map_of (pendingRequests st) (the id') = None"
  shows "onCliMessage1 rt now payload st
           = Inr (st\<lparr>sseBroker :=
               broadcast rt now ''message''
                 (\<lambda>sid. JObj [(''session'', JStr sid), (''body'', payload)]) (sseBroker st)\<rparr>)
       \<and> onCliMessage2 rt now payload st
           = Inr (st\<lparr>sseBroker :=
               broadcast rt now ''message''
                 (\<lambda>sid. JObj [(''session'', JStr sid), (''body'', payload)]) (sseBroker st)\<rparr>)
       \<and> (brokerInv (sseBroker st) \<longrightarrow>
            (\<forall>sid client. map_of (clients (sseBroker st)) sid = Some client \<longrightarrow>
               written (streams (broadcast rt now ''message''
                   (\<lambda>sid. JObj [(''session'', JStr sid), (''body'', payload)]) (sseBroker st))
                 (res client))
               = written (streams (sseBroker st) (res client))
                 @ eventFrames rt ''message''
                     (JObj [(''session'', JStr sid), (''body'', payload)])))"
proof -
  have one: "onCliMessage1 rt now payload st
      = Inr (st\<lparr>sseBroker :=
          broadcast rt now ''message'' (\<lambda>sid. sessionMessage sid payload) (sseBroker st)\<rparr>)"
    using assms by (auto simp: onCliMessage1_def)
  have two: "onCliMessage2 rt now payload st
      = Inr (st\<lparr>sseBroker :=
          broadcast rt now ''message'' (\<lambda>sid. sessionMessage sid payload) (sseBroker st)\<rparr>)"
    using assms by (auto simp: onCliMessage2_def removePending_absent)
  have three: "written (streams (broadcast rt now ''message''
          (\<lambda>sid. sessionMessage sid payload) (sseBroker st)) (res client))
      = written (streams (sseBroker st) (res client))
        @ eventFrames rt ''message'' (sessionMessage sid payload)"
    if "brokerInv (sseBroker st)" "map_of (clients (sseBroker st)) sid = Some client"
    for sid client
    using broadcast_streams [OF that(1) map_of_SomeD [OF that(2)]] by simp
  from one two three show ?thesis
    by (simp add: sessionMessage_def)
qed

lemma exampleServer_state:
  "pendingRequests exampleServer = []"
  "sseBroker exampleServer = exampleBroker"
  by (simp_all add: exampleServer_def newServer_def)

theorem unmatched_message_broadcast_witness:
  "isRecord (JObj [(''id'', JStr ''99''), (''result'', JStr ''pong'')])
   \<and> getRequestId exampleRuntime (JObj [(''id'', JStr ''99''), (''result'', JStr ''pong'')])
       = Inr (Some ''99'')
   \<and> map_of (pendingRequests exampleServer) ''99'' = None
   \<and> written (streams (sseBroker (projr (onCliMessage1 exampleRuntime 20
          (JObj [(''id'', JStr ''99''), (''result'', JStr ''pong'')]) exampleServer))) 0)
       = [''event: ready'' @ [newline],
          ''data: {\"session\":\"a\"}'' @ [newline, newline],
          ''event: message'' @ [newline],
          ''data: {\"session\":\"a\",\"body\":{\"id\":\"99\",\"result\":\"pong\"}}''
            @ [newline, newline]]
   \<and> written (streams (sseBroker (projr (onCliMessage2 exampleRuntime 20
          (JObj [(''id'', JStr ''99''), (''result'', JStr ''pong'')]) exampleServer))) 1)
       = [''event: ready'' @ [newline],
          ''data: {\"session\":\"b\"}'' @ [newline, newline],
          ''event: message'' @ [newline],
          ''data: {\"session\":\"b\",\"body\":{\"id\":\"99\",\"result\":\"pong\"}}''
            @ [newline, newline]]"
proof -
  let ?p = "JObj [(''id'', JStr ''99''), (''result'', JStr ''pong'')]"
  have h1: "isRecord ?p"
    by (simp add: isRecord_def)
  have h2: "getRequestId exampleRuntime ?p = Inr (Some ''99'')"
    by (simp add: getRequestId_def getProp_def)
  have h3: "\<not> truthy (Some ''99'') \<or> map_of (pendingRequests exampleServer) (the (Some ''99'')) = None"
    by (simp add: exampleServer_state)
  note bc = unmatched_message_broadcast [OF h1 h2 h3, of 20]
  have a: "map_of (clients (sseBroker exampleServer)) ''a''
      = Some \<lparr>clientSessionId = ''a'', res = 0, connectedAt = 0, lastEventAt = 0\<rparr>"
    and b: "map_of (clients (sseBroker exampleServer)) ''b''
      = Some \<lparr>clientSessionId = ''b'', res = 1, connectedAt = 100000, lastEventAt = 100000\<rparr>"
    by (simp_all add: exampleServer_state exampleBroker_clients)
  have inv: "brokerInv (sseBroker exampleServer)"
    by (simp add: exampleServer_state exampleBroker_inv)
  have s: "JSON_stringify exampleRuntime j = Some (render j)" for j
    by (simp add: exampleRuntime_def)
  from bc [THEN conjunct2, THEN conjunct2, rule_format, OF inv a]
    bc [THEN conjunct2, THEN conjunct2, rule_format, OF inv b]
    bc [THEN conjunct1] bc [THEN conjunct2, THEN conjunct1]
  show ?thesis
    by (simp add: h1 h2 exampleServer_state exampleBroker_written eventFrames_def s quoted_def)
qed

text \<open>
  The worker prints the line \<^verbatim>\<open>true\<close>: the framer emits the message \<open>true\<close>, which
  carries no identifier. Two sessions are attached. Both revisions of the listener
  return at the \<^verbatim>\<open>isRecord\<close> test and leave the router as it is: nothing is written
  to any stream.
\<close>

theorem non_object_message_not_broadcast:
  "emitted (handleStdout exampleRuntime 20 (''true'' @ [newline]) runningCli)
     = [Message (JBool True)]
   \<and> getRequestId exampleRuntime (JBool True) = Inr None
   \<and> map fst (clients (sseBroker exampleServer)) = [''a'', ''b'']
   \<and> onCliMessage1 exampleRuntime 20 (JBool True) exampleServer = Inr exampleServer
   \<and> onCliMessage2 exampleRuntime 20 (JBool True) exampleServer = Inr exampleServer"
proof -
  have "framedMessages exampleRuntime (''true'' @ [newline]) = [Message (JBool True)]"
    by (simp add: framedMessages_def exampleRuntime_def trim_def isWhiteSpace_def
        newline_def)
  moreover have "stdoutBuffer runningCli = []" "emitted runningCli = []"
    by (simp_all add: runningCli_def start_def startAuthenticated_def spawnCli_def
        newMablCli_def)
  ultimately have "emitted (handleStdout exampleRuntime 20 (''true'' @ [newline]) runningCli)
      = [Message (JBool True)]"
    by (simp add: handleStdout_def drainLines_emitted)
  then show ?thesis
    by (simp add: getRequestId_def getProp_def onCliMessage1_def onCliMessage2_def
        isRecord_def exampleServer_state exampleBroker_clients)
qed

subsection \<open>Forward failures\<close>

lemma send_not_running: "\<not> isRunning c \<Longrightarrow> send rt payload accepted c = Inl NotRunning"
  by (auto simp: send_def isRunning_def split: option.splits)

lemma clearPending_lookup:
  "map_of (pendingRequests (clearPending id' st)) k
   = (if k = id' then None else map_of (pendingRequests st) k)"
  by (auto simp: clearPending_def delete_conv' split: option.splits)

lemma delete_absent: "map_of al k = None \<Longrightarrow> AList.delete k al = al"
  by (simp add: map_of_eq_None_iff)

text \<open>The state after the registration block of \<^verbatim>\<open>messageHandler\<close> (earlier revision).\<close>

lemma forwardFailed1_registered:
  assumes "truthy requestId"
  shows "forwardFailed1 requestId r
           ((snd (setTimeout (the requestId, session) st))
              \<lparr>pendingRequests :=
                 AList.update (the requestId)
                   \<lparr>sessionId = session, startedAt = now, timeoutHandle = nextTimer st,
                    httpResponder = None\<rparr>
                   (pendingRequests st)\<rparr>)
         = st\<lparr>pendingRequests := AList.delete (the requestId) (pendingRequests st),
              timers := (timers st)(nextTimer st := None),
              nextTimer := nextTimer st + 1,
              responses := responses st @ [(r, 503, unavailableBody)]\<rparr>"
  using assms
  by (simp add: forwardFailed1_def clearPending_def setTimeout_def update_conv'
      delete_update_same respond_def unavailableBody_def clearTimeout_def)

text \<open>
  C7, as the code has it. A submission with a well-formed envelope whose forward
  fails is answered 503, and no entry is pending under its request identifier
  afterwards: whether \<^verbatim>\<open>cli.send\<close> throws at once (the worker is not running, the
  payload does not serialise, there is no input stream), or rejects after the handler
  was suspended on a write that was not accepted (then also when other events ran in
  between, \<open>st2\<close> being the state the handler resumes in). The timer armed for the call
  is cleared, the entries under other identifiers, the broker and the answers given
  before are untouched. When nothing was pending under the identifier before the
  call, the pending map is exactly what it was.
\<close>

theorem forward_failure_rollback:
  assumes "extractMessageEnvelope req = Inr (session, body)"
    and "getRequestId rt body = Inr requestId"
  shows "(send rt body accepted (mablCli st) = Inl e \<longrightarrow>
            messageHandler1 rt now req r accepted st
              = (if truthy requestId
                 then st\<lparr>pendingRequests := AList.delete (the requestId) (pendingRequests st),
                         timers := (timers st)(nextTimer st := None),
                         nextTimer := nextTimer st + 1,
                         responses := responses st
                           @ [(r, 503, JObj [(''error'', JStr ''mabl CLI process unavailable.'')])]\<rparr>
                 else st\<lparr>responses := responses st
                           @ [(r, 503, JObj [(''error'', JStr ''mabl CLI process unavailable.'')])]\<rparr>,
                 None))
       \<and> (send rt body accepted (mablCli st) = Inr (cli', False) \<longrightarrow>
            snd (messageHandler1 rt now req r accepted st) = Some (Awaiting requestId r False)
            \<and> resumed1 False (Awaiting requestId r False)
                 (fst (messageHandler1 rt now req r accepted st))
              = (if truthy requestId
                 then st\<lparr>pendingRequests := AList.delete (the requestId) (pendingRequests st),
                         mablCli := cli',
                         timers := (timers st)(nextTimer st := None),
                         nextTimer := nextTimer st + 1,
                         responses := responses st
                           @ [(r, 503, JObj [(''error'', JStr ''mabl CLI process unavailable.'')])]\<rparr>
                 else st\<lparr>mablCli := cli',
                         responses := responses st
                           @ [(r, 503, JObj [(''error'', JStr ''mabl CLI process unavailable.'')])]\<rparr>))
       \<and> responses (resumed1 False (Awaiting requestId r False) st2)
            = responses st2 @ [(r, 503, JObj [(''error'', JStr ''mabl CLI process unavailable.'')])]
       \<and> map_of (pendingRequests (resumed1 False (Awaiting requestId r False) st2))
            = (if truthy requestId then (map_of (pendingRequests st2))(the requestId := None)
               else map_of (pendingRequests st2))
       \<and> (\<not> isRunning (mablCli st) \<longrightarrow> send rt body accepted (mablCli st) = Inl NotRunning)
       \<and> map_of (AList.delete (the requestId) (pendingRequests st))
            = (map_of (pendingRequests st))(the requestId := None)
       \<and> (map_of (pendingRequests st) (the requestId) = None \<longrightarrow>
            AList.delete (the requestId) (pendingRequests st) = pendingRequests st)"
proof -
  let ?registered = "(snd (setTimeout (the requestId, session) st))
      \<lparr>pendingRequests :=
         AList.update (the requestId)
           \<lparr>sessionId = session, startedAt = now, timeoutHandle = nextTimer st,
            httpResponder = None\<rparr>
           (pendingRequests st)\<rparr>"
  have sync: "messageHandler1 rt now req r accepted st
      = (if truthy requestId
         then st\<lparr>pendingRequests := AList.delete (the requestId) (pendingRequests st),
                 timers := (timers st)(nextTimer st := None),
                 nextTimer := nextTimer st + 1,
                 responses := responses st @ [(r, 503, unavailableBody)]\<rparr>
         else st\<lparr>responses := responses st @ [(r, 503, unavailableBody)]\<rparr>,
         None)"
    if f: "send rt body accepted (mablCli st) = Inl e"
  proof (cases "truthy requestId")
    case True
    then show ?thesis
      using f forwardFailed1_registered [OF True]
      by (simp add: messageHandler1_def assms Let_def setTimeout_def)
  next
    case False
    with f show ?thesis
      by (simp add: messageHandler1_def assms Let_def forwardFailed1_def respond_def
          unavailableBody_def)
  qed
  have async: "snd (messageHandler1 rt now req r accepted st) = Some (Awaiting requestId r False)
      \<and> resumed1 False (Awaiting requestId r False)
           (fst (messageHandler1 rt now req r accepted st))
        = (if truthy requestId
           then st\<lparr>pendingRequests := AList.delete (the requestId) (pendingRequests st),
                   mablCli := cli',
                   timers := (timers st)(nextTimer st := None),
                   nextTimer := nextTimer st + 1,
                   responses := responses st @ [(r, 503, unavailableBody)]\<rparr>
           else st\<lparr>mablCli := cli',
                   responses := responses st @ [(r, 503, unavailableBody)]\<rparr>)"
    if f: "send rt body accepted (mablCli st) = Inr (cli', False)"
  proof (cases "truthy requestId")
    case True
    then show ?thesis
      using f
      by (simp add: messageHandler1_def assms Let_def setTimeout_def resumed1_def
          forwardFailed1_def clearPending_def update_conv' delete_update_same respond_def
          unavailableBody_def clearTimeout_def)
  next
    case False
    with f show ?thesis
      by (simp add: messageHandler1_def assms Let_def resumed1_def forwardFailed1_def
          respond_def unavailableBody_def)
  qed
  have later: "responses (resumed1 False (Awaiting requestId r False) st2)
        = responses st2 @ [(r, 503, unavailableBody)]"
    by (simp add: resumed1_def forwardFailed1_def clearPending_def unavailableBody_def
        split: option.splits)
  have gone: "map_of (pendingRequests (resumed1 False (Awaiting requestId r False) st2))
        = (if truthy requestId then (map_of (pendingRequests st2))(the requestId := None)
           else map_of (pendingRequests st2))"
    by (auto simp: resumed1_def forwardFailed1_def clearPending_lookup fun_eq_iff)
  have down: "send rt body accepted (mablCli st) = Inl NotRunning"
    if "\<not> isRunning (mablCli st)"
    using that by (rule send_not_running)
  have fresh: "AList.delete (the requestId) (pendingRequests st) = pendingRequests st"
    if "map_of (pendingRequests st) (the requestId) = None"
    using that by (rule delete_absent)
  from sync async later gone down fresh show ?thesis
    by (simp add: unavailableBody_def delete_conv')
qed

theorem forward_failure_rollback_witness:
  "extractMessageEnvelope (pingRequest ''a'' ''7'')
     = Inr (''a'', JObj [(''id'', JStr ''7''), (''method'', JStr ''ping'')])
   \<and> getRequestId exampleRuntime (JObj [(''id'', JStr ''7''), (''method'', JStr ''ping'')])
       = Inr (Some ''7'')
   \<and> \<not> isRunning (mablCli downServer)
   \<and> map_of (pendingRequests downServer) ''7'' = None
   \<and> snd (messageHandler1 exampleRuntime 5 (pingRequest ''a'' ''7'') 10 True downServer) = None
   \<and> responses (fst (messageHandler1 exampleRuntime 5 (pingRequest ''a'' ''7'') 10 True downServer))
       = [(10, 503, JObj [(''error'', JStr ''mabl CLI process unavailable.'')])]
   \<and> pendingRequests (fst (messageHandler1 exampleRuntime 5 (pingRequest ''a'' ''7'') 10 True
        downServer)) = pendingRequests downServer
   \<and> timers (fst (messageHandler1 exampleRuntime 5 (pingRequest ''a'' ''7'') 10 True downServer)) 0
       = None"
proof -
  have h1: "extractMessageEnvelope (pingRequest ''a'' ''7'')
      = Inr (''a'', JObj [(''id'', JStr ''7''), (''method'', JStr ''ping'')])"
    by (simp add: pingRequest_def extractMessageEnvelope_def isRecord_def getProp_def)
  have h2: "getRequestId exampleRuntime (JObj [(''id'', JStr ''7''), (''method'', JStr ''ping'')])
      = Inr (Some ''7'')"
    by (simp add: getRequestId_def getProp_def)
  have down: "\<not> isRunning (mablCli downServer)"
    by (simp add: downServer_def isRunning_def childExit_def runningCli_def start_def
        startAuthenticated_def spawnCli_def newMablCli_def emit_def scheduleRestart_def
        Let_def)
  have p: "pendingRequests downServer = []" "responses downServer = []"
    by (simp_all add: downServer_def exampleServer_def newServer_def)
  note rb = forward_failure_rollback [OF h1 h2, of True downServer NotRunning 5 10]
  from rb down have f: "send exampleRuntime (JObj [(''id'', JStr ''7''), (''method'', JStr ''ping'')])
      True (mablCli downServer) = Inl NotRunning"
    by blast
  with rb have "messageHandler1 exampleRuntime 5 (pingRequest ''a'' ''7'') 10 True downServer
      = (downServer\<lparr>pendingRequests := AList.delete ''7'' (pendingRequests downServer),
           timers := (timers downServer)(nextTimer downServer := None),
           nextTimer := nextTimer downServer + 1,
           responses := responses downServer
             @ [(10, 503, JObj [(''error'', JStr ''mabl CLI process unavailable.'')])]\<rparr>, None)"
    by (simp add: truthy_def)
  then show ?thesis
    using h1 h2 down
    by (simp add: p downServer_def exampleServer_def newServer_def)
qed

text \<open>
  Identifier 7 is pending for session \<open>a\<close>. Session \<open>b\<close> submits a request with the
  same identifier: the registration replaces the entry, the write to the worker is
  not accepted, and the input stream fails before it drains. The handler answers 503
  and removes the entry of identifier 7: the pending map, which held the entry of
  session \<open>a\<close> before the call, is empty after it.
\<close>

theorem forward_failure_same_identifier:
  "(let st1 = fst (messageHandler1 exampleRuntime 5 (pingRequest ''a'' ''7'') 10 True exampleServer);
        st2 = fst (messageHandler1 exampleRuntime 6 (pingRequest ''b'' ''7'') 11 False st1);
        k = snd (messageHandler1 exampleRuntime 6 (pingRequest ''b'' ''7'') 11 False st1);
        st3 = resumed1 False (the k) st2
    in pendingRequests st1
         = [(''7'', \<lparr>sessionId = ''a'', startedAt = 5, timeoutHandle = 0, httpResponder = None\<rparr>)]
       \<and> k = Some (Awaiting (Some ''7'') 11 False)
       \<and> responses st3
           = [(10, 202, JObj [(''accepted'', JBool True)]),
              (11, 503, JObj [(''error'', JStr ''mabl CLI process unavailable.'')])]
       \<and> pendingRequests st3 = []
       \<and> pendingRequests st3 \<noteq> pendingRequests st1
       \<and> timers st3 0 = Some (''7'', ''a''))"
  by (simp add: Let_def messageHandler1_def exampleServer_def newServer_def
      pingRequest_def extractMessageEnvelope_def isRecord_def getProp_def getRequestId_def
      truthy_def setTimeout_def send_def runningCli_def start_def startAuthenticated_def
      spawnCli_def newMablCli_def exampleRuntime_def forwardSucceeded1_def respond_def
      resumed1_def forwardFailed1_def clearPending_def clearTimeout_def)

subsection \<open>Timeouts\<close>

lemma onCliMessage1_unmatched:
  assumes "isRecord payload" and "getRequestId rt payload = Inr id'"
    and "\<not> truthy id' \<or> map_of (pendingRequests st) (the id') = None"
  shows "onCliMessage1 rt now payload st
         = Inr (st\<lparr>sseBroker :=
             broadcast rt now ''message'' (\<lambda>sid. sessionMessage sid payload) (sseBroker st)\<rparr>)"
  using assms by (auto simp: onCliMessage1_def)

lemma onCliMessage2_unmatched:
  assumes "isRecord payload" and "getRequestId rt payload = Inr id'"
    and "\<not> truthy id' \<or> map_of (pendingRequests st) (the id') = None"
  shows "onCliMessage2 rt now payload st
         = Inr (st\<lparr>sseBroker :=
             broadcast rt now ''message'' (\<lambda>sid. sessionMessage sid payload) (sseBroker st)\<rparr>)"
  using assms by (auto simp: onCliMessage2_def removePending_absent)

lemma timeoutFired1_armed:
  assumes "timers st h = Some (requestId, session)"
  shows "timeoutFired1 rt now h st
         = st\<lparr>timers := (timers st)(h := None),
              pendingRequests := AList.delete requestId (pendingRequests st),
              sseBroker := sendEvent rt now session ''message''
                (sessionMessage session (timedOutPayload requestId)) (sseBroker st)\<rparr>"
  using assms
  by (simp add: timeoutFired1_def timeoutCallback1_def timedOutPayload_eq clearTimeout_def)

lemma timeoutFired2_armed:
  assumes "timers st h = Some (requestId, session)"
    and "map_of (pendingRequests st) requestId = Some pending"
  shows "timeoutFired2 rt now h st
         = (case httpResponder pending of
              Some hr \<Rightarrow>
                if \<not> headersSent hr st
                then st\<lparr>responses := responses st @ [(hr, 504, timedOutPayload requestId)]\<rparr>
                else st
            | None \<Rightarrow> st)
           \<lparr>timers := (timers st)(h := None, timeoutHandle pending := None),
            pendingRequests := AList.delete requestId (pendingRequests st),
            sseBroker := sendEvent rt now (sessionId pending) ''message''
              (sessionMessage (sessionId pending) (timedOutPayload requestId)) (sseBroker st)\<rparr>"
  using assms
  by (simp add: timeoutFired2_def timeoutCallback2_def timedOutPayload_eq clearTimeout_def
      removePending_def Let_def headersSent_def respond_def split: option.splits)

lemma timeoutFired2_absent:
  assumes "timers st h = Some (requestId, session)"
    and "map_of (pendingRequests st) requestId = None"
  shows "timeoutFired2 rt now h st = st\<lparr>timers := (timers st)(h := None)\<rparr>"
  using assms
  by (simp add: timeoutFired2_def timeoutCallback2_def clearTimeout_def removePending_def)

lemma not_armed_never_fires:
  "timers st h = None \<Longrightarrow> timeoutFired1 rt now h st = st \<and> timeoutFired2 rt now h st = st"
  by (simp add: timeoutFired1_def timeoutFired2_def)

lemma broadcast_after_sendEvent:
  assumes "brokerInv b" and "map_of (clients b) sid = Some client"
  shows "written (streams (broadcast rt now' event payloadBuilder
             (sendEvent rt now s event' payload b)) (res client))
         = written (streams (sendEvent rt now s event' payload b) (res client))
           @ eventFrames rt event (payloadBuilder sid)"
proof -
  let ?b = "sendEvent rt now s event' payload b"
  have "\<exists>client1. map_of (clients ?b) sid = Some client1 \<and> res client1 = res client"
    using assms(2) by (auto simp: sendEvent_clients)
  then obtain client1 where c1: "map_of (clients ?b) sid = Some client1" "res client1 = res client"
    by blast
  from assms(1) have "brokerInv ?b"
    by (rule sendEvent_brokerInv)
  from broadcast_streams [OF this map_of_SomeD [OF c1(1)], of rt now' event payloadBuilder] c1(2)
  show ?thesis by simp
qed

text \<open>
  C4, as the code has it. The timeout of a pending request fires before a matching
  response has arrived; the session that owns the request has a stream attached. In
  both revisions the entry is removed and the owner's stream receives one message
  event carrying the jsonrpc error with the request's identifier, code -32000 and the
  timed-out message. A response of the worker that carries the identifier and arrives
  afterwards finds no entry: it is broadcast, and so it is written to the stream of
  every attached session, the owner's included.
\<close>

theorem timeout_then_late_response:
  assumes "timers st h = Some (requestId, session)"
    and "map_of (pendingRequests st) requestId = Some pending"
    and "sessionId pending = session"
    and "map_of (clients (sseBroker st)) session = Some client"
    and "brokerInv (sseBroker st)"
    and "isRecord payload"
    and "getRequestId rt payload = Inr (Some requestId)"
  shows "(let st1 = timeoutFired1 rt now h st;
              st2 = timeoutFired2 rt now h st;
              timeoutEvent = eventFrames rt ''message''
                (JObj [(''session'', JStr session),
                       (''body'', JObj [(''jsonrpc'', JStr ''2.0''),
                          (''id'', JStr requestId),
                          (''error'', JObj [(''code'', JNum (- 32000)),
                             (''message'', JStr ''Timed out waiting for response from mabl CLI.'')])])]);
              lateEvent = eventFrames rt ''message''
                (JObj [(''session'', JStr session), (''body'', payload)])
          in map_of (pendingRequests st1) requestId = None
           \<and> written (streams (sseBroker st1) (res client))
               = written (streams (sseBroker st) (res client)) @ timeoutEvent
           \<and> onCliMessage1 rt now' payload st1
               = Inr (st1\<lparr>sseBroker :=
                   broadcast rt now' ''message''
                     (\<lambda>sid. JObj [(''session'', JStr sid), (''body'', payload)]) (sseBroker st1)\<rparr>)
           \<and> written (streams (sseBroker (projr (onCliMessage1 rt now' payload st1))) (res client))
               = written (streams (sseBroker st) (res client)) @ timeoutEvent @ lateEvent
           \<and> map_of (pendingRequests st2) requestId = None
           \<and> written (streams (sseBroker st2) (res client))
               = written (streams (sseBroker st) (res client)) @ timeoutEvent
           \<and> onCliMessage2 rt now' payload st2
               = Inr (st2\<lparr>sseBroker :=
                   broadcast rt now' ''message''
                     (\<lambda>sid. JObj [(''session'', JStr sid), (''body'', payload)]) (sseBroker st2)\<rparr>)
           \<and> written (streams (sseBroker (projr (onCliMessage2 rt now' payload st2))) (res client))
               = written (streams (sseBroker st) (res client)) @ timeoutEvent @ lateEvent)"
proof -
  let ?sent = "sendEvent rt now session ''message''
      (sessionMessage session (timedOutPayload requestId)) (sseBroker st)"
  have b1: "sseBroker (timeoutFired1 rt now h st) = ?sent"
    and p1: "pendingRequests (timeoutFired1 rt now h st)
        = AList.delete requestId (pendingRequests st)"
    by (simp_all add: timeoutFired1_armed [OF assms(1)])
  have b2: "sseBroker (timeoutFired2 rt now h st) = ?sent"
    and p2: "pendingRequests (timeoutFired2 rt now h st)
        = AList.delete requestId (pendingRequests st)"
    using assms(3)
    by (simp_all add: timeoutFired2_armed [OF assms(1,2)] split: option.splits)
  have gone: "map_of (AList.delete requestId (pendingRequests st)) requestId = None"
    by (simp add: delete_conv')
  have w: "written (streams ?sent (res client))
      = written (streams (sseBroker st) (res client))
        @ eventFrames rt ''message'' (sessionMessage session (timedOutPayload requestId))"
    by (simp add: sendEvent_streams assms(4))
  have m1: "onCliMessage1 rt now' payload (timeoutFired1 rt now h st)
      = Inr ((timeoutFired1 rt now h st)\<lparr>sseBroker :=
          broadcast rt now' ''message'' (\<lambda>sid. sessionMessage sid payload)
            (sseBroker (timeoutFired1 rt now h st))\<rparr>)"
    by (rule onCliMessage1_unmatched [OF assms(6,7)]) (simp add: p1 gone)
  have m2: "onCliMessage2 rt now' payload (timeoutFired2 rt now h st)
      = Inr ((timeoutFired2 rt now h st)\<lparr>sseBroker :=
          broadcast rt now' ''message'' (\<lambda>sid. sessionMessage sid payload)
            (sseBroker (timeoutFired2 rt now h st))\<rparr>)"
    by (rule onCliMessage2_unmatched [OF assms(6,7)]) (simp add: p2 gone)
  have late: "written (streams (broadcast rt now' ''message''
        (\<lambda>sid. sessionMessage sid payload) ?sent) (res client))
      = written (streams ?sent (res client))
        @ eventFrames rt ''message'' (sessionMessage session payload)"
    by (rule broadcast_after_sendEvent [OF assms(5,4)])
  from p1 p2 gone w m1 m2 late show ?thesis
    by (simp add: Let_def b1 b2 sessionMessage_def timedOutPayload_def)
qed

lemma onePending_state:
  "pendingRequests onePending
     = [(''7'', \<lparr>sessionId = ''a'', startedAt = 5, timeoutHandle = 0, httpResponder = None\<rparr>)]"
  "sseBroker onePending = exampleBroker"
  "timers onePending = (\<lambda>_. None)(0 \<mapsto> (''7'', ''a''))"
  "responses onePending = [(10, 202, JObj [(''accepted'', JBool True)])]"
  by (simp_all add: onePending_def messageHandler1_def exampleServer_def newServer_def
      pingRequest_def extractMessageEnvelope_def isRecord_def getProp_def getRequestId_def
      truthy_def setTimeout_def send_def runningCli_def start_def startAuthenticated_def
      spawnCli_def newMablCli_def exampleRuntime_def forwardSucceeded1_def respond_def
      Let_def)

lemma onePending_later_revision:
  "messageHandler2 exampleRuntime 5 (pingRequest ''a'' ''7'') 10 True exampleServer
   = messageHandler1 exampleRuntime 5 (pingRequest ''a'' ''7'') 10 True exampleServer"
  by (simp add: messageHandler1_def messageHandler2_def exampleServer_def newServer_def
      pingRequest_def extractMessageEnvelope_def normalizeEnvelope_def isRecord_def
      getProp_def getRequestId_def truthy_def setTimeout_def send_def runningCli_def
      start_def startAuthenticated_def spawnCli_def newMablCli_def exampleRuntime_def
      forwardSucceeded1_def forwardSucceeded2_def respond_def Let_def)

theorem timeout_then_late_response_witness:
  "timers onePending 0 = Some (''7'', ''a'')
   \<and> map_of (pendingRequests onePending) ''7''
       = Some \<lparr>sessionId = ''a'', startedAt = 5, timeoutHandle = 0, httpResponder = None\<rparr>
   \<and> map_of (clients (sseBroker onePending)) ''a''
       = Some \<lparr>clientSessionId = ''a'', res = 0, connectedAt = 0, lastEventAt = 0\<rparr>
   \<and> brokerInv (sseBroker onePending)
   \<and> isRecord (pongResponse ''7'')
   \<and> getRequestId exampleRuntime (pongResponse ''7'') = Inr (Some ''7'')
   \<and> map_of (pendingRequests (timeoutFired2 exampleRuntime 45005 0 onePending)) ''7'' = None
   \<and> written (streams (sseBroker (timeoutFired2 exampleRuntime 45005 0 onePending)) 0)
       = [''event: ready'' @ [newline],
          ''data: {\"session\":\"a\"}'' @ [newline, newline],
          ''event: message'' @ [newline],
          ''data: {\"session\":\"a\",\"body\":{\"jsonrpc\":\"2.0\",\"id\":\"7\",\"error\":{\"code\":-32000,\"message\":\"Timed out waiting for response from mabl CLI.\"}}}''
            @ [newline, newline]]"
proof -
  have h1: "timers onePending 0 = Some (''7'', ''a'')"
    and h2: "map_of (pendingRequests onePending) ''7''
      = Some \<lparr>sessionId = ''a'', startedAt = 5, timeoutHandle = 0, httpResponder = None\<rparr>"
    and h4: "map_of (clients (sseBroker onePending)) ''a''
      = Some \<lparr>clientSessionId = ''a'', res = 0, connectedAt = 0, lastEventAt = 0\<rparr>"
    and h5: "brokerInv (sseBroker onePending)"
    by (simp_all add: onePending_state exampleBroker_clients exampleBroker_inv)
  have h3: "sessionId \<lparr>sessionId = ''a'', startedAt = 5, timeoutHandle = 0, httpResponder = None\<rparr>
      = ''a''"
    by simp
  have h6: "isRecord (pongResponse ''7'')"
    and h7: "getRequestId exampleRuntime (pongResponse ''7'') = Inr (Some ''7'')"
    by (simp_all add: pongResponse_def isRecord_def getRequestId_def getProp_def)
  have s: "JSON_stringify exampleRuntime j = Some (render j)" for j
    by (simp add: exampleRuntime_def)
  from timeout_then_late_response [OF h1 h2 h3 h4 h5 h6 h7, of 45005 50000]
  show ?thesis
    using h1 h2 h4 h5 h6 h7
    by (simp add: Let_def onePending_state exampleBroker_written eventFrames_def s quoted_def
        showInt_def showNat.simps digitChar_def)
qed

text \<open>
  Session \<open>a\<close> submits the request with identifier 7; the worker does not answer and
  the timeout fires at time 45005: the stream of \<open>a\<close> receives the timeout error. At
  time 50000 the worker's response with identifier 7 arrives: in both revisions it is
  written to the stream of session \<open>a\<close> (and to that of session \<open>b\<close>).
\<close>

theorem late_response_is_delivered:
  "(let st1 = timeoutFired1 exampleRuntime 45005 0 onePending;
        st1' = projr (onCliMessage1 exampleRuntime 50000 (pongResponse ''7'') st1);
        st2 = timeoutFired2 exampleRuntime 45005 0 onePending;
        st2' = projr (onCliMessage2 exampleRuntime 50000 (pongResponse ''7'') st2)
    in pendingRequests st1 = [] \<and> pendingRequests st2 = []
     \<and> written (streams (sseBroker st1') 0)
         = written (streams (sseBroker st1) 0)
           @ [''event: message'' @ [newline],
              ''data: {\"session\":\"a\",\"body\":{\"id\":\"7\",\"result\":\"pong\"}}''
                @ [newline, newline]]
     \<and> written (streams (sseBroker st2') 0)
         = written (streams (sseBroker st2) 0)
           @ [''event: message'' @ [newline],
              ''data: {\"session\":\"a\",\"body\":{\"id\":\"7\",\"result\":\"pong\"}}''
                @ [newline, newline]]
     \<and> written (streams (sseBroker st2') 1)
         = written (streams (sseBroker st2) 1)
           @ [''event: message'' @ [newline],
              ''data: {\"session\":\"b\",\"body\":{\"id\":\"7\",\"result\":\"pong\"}}''
                @ [newline, newline]])"
proof -
  have t: "timers onePending 0 = Some (''7'', ''a'')"
    and p: "map_of (pendingRequests onePending) ''7''
      = Some \<lparr>sessionId = ''a'', startedAt = 5, timeoutHandle = 0, httpResponder = None\<rparr>"
    by (simp_all add: onePending_state)
  define b1 where "b1 = sendEvent exampleRuntime 45005 ''a'' ''message''
      (sessionMessage ''a'' (timedOutPayload ''7'')) exampleBroker"
  have s: "JSON_stringify exampleRuntime j = Some (render j)" for j
    by (simp add: exampleRuntime_def)
  have c: "clients b1
      = [(''a'', \<lparr>clientSessionId = ''a'', res = 0, connectedAt = 0, lastEventAt = 45005\<rparr>),
         (''b'', \<lparr>clientSessionId = ''b'', res = 1, connectedAt = 100000, lastEventAt = 100000\<rparr>)]"
    by (simp add: b1_def sendEvent_def writeEvent_def exampleBroker_clients s Let_def
        resWrite_def)
  have f1: "sseBroker (timeoutFired1 exampleRuntime 45005 0 onePending) = b1"
    "pendingRequests (timeoutFired1 exampleRuntime 45005 0 onePending) = []"
    by (simp_all add: timeoutFired1_armed [OF t] onePending_state b1_def)
  have f2: "sseBroker (timeoutFired2 exampleRuntime 45005 0 onePending) = b1"
    "pendingRequests (timeoutFired2 exampleRuntime 45005 0 onePending) = []"
    by (simp_all add: timeoutFired2_armed [OF t p] onePending_state b1_def)
  have r: "isRecord (pongResponse ''7'')"
    and g: "getRequestId exampleRuntime (pongResponse ''7'') = Inr (Some ''7'')"
    by (simp_all add: pongResponse_def isRecord_def getRequestId_def getProp_def)
  have m1: "sseBroker (projr (onCliMessage1 exampleRuntime 50000 (pongResponse ''7'')
        (timeoutFired1 exampleRuntime 45005 0 onePending)))
      = broadcast exampleRuntime 50000 ''message''
          (\<lambda>sid. sessionMessage sid (pongResponse ''7'')) b1"
    by (subst onCliMessage1_unmatched [OF r g]) (simp_all add: f1)
  have m2: "sseBroker (projr (onCliMessage2 exampleRuntime 50000 (pongResponse ''7'')
        (timeoutFired2 exampleRuntime 45005 0 onePending)))
      = broadcast exampleRuntime 50000 ''message''
          (\<lambda>sid. sessionMessage sid (pongResponse ''7'')) b1"
    by (subst onCliMessage2_unmatched [OF r g]) (simp_all add: f2)
  have w: "written (streams (broadcast exampleRuntime 50000 ''message''
          (\<lambda>sid. sessionMessage sid (pongResponse ''7'')) b1) 0)
      = written (streams b1 0)
        @ [''event: message'' @ [newline],
           ''data: {\"session\":\"a\",\"body\":{\"id\":\"7\",\"result\":\"pong\"}}''
             @ [newline, newline]]"
    "written (streams (broadcast exampleRuntime 50000 ''message''
          (\<lambda>sid. sessionMessage sid (pongResponse ''7'')) b1) (Suc 0))
      = written (streams b1 (Suc 0))
        @ [''event: message'' @ [newline],
           ''data: {\"session\":\"b\",\"body\":{\"id\":\"7\",\"result\":\"pong\"}}''
             @ [newline, newline]]"
    by (simp_all add: broadcast_def c writeEvent_streams eventFrames_def s sessionMessage_def
        pongResponse_def quoted_def)
  show ?thesis
    by (simp add: Let_def f1 f2 m1 m2 w)
qed

subsection \<open>Resolution, timeout and exit on one identifier\<close>

text \<open>
  The later revision: \<^verbatim>\<open>removePending\<close> takes the entry if it is there. When an entry
  is pending under the identifier, each of the three paths (a response carrying the
  identifier, the timeout callback, the exit listener) removes it, clears its timer
  and delivers to the session of the entry. When none is pending, the timeout
  callback changes nothing, a response is broadcast and leaves the pending map as it
  is, and the exit listener has no entry of that identifier to visit.
\<close>

theorem removePending_take_if_present:
  assumes "isRecord payload" and "getRequestId rt payload = Inr (Some id')" and "id' \<noteq> []"
  shows "(map_of (pendingRequests st) id' = None \<longrightarrow>
            removePending id' st = (None, st)
          \<and> timeoutCallback2 rt now (id', session) st = st
          \<and> onCliMessage2 rt now payload st
              = Inr (st\<lparr>sseBroker :=
                  broadcast rt now ''message'' (\<lambda>sid. sessionMessage sid payload) (sseBroker st)\<rparr>)
          \<and> id' \<notin> fst ` set (pendingRequests st))
       \<and> (map_of (pendingRequests st) id' = Some pending \<longrightarrow>
            fst (removePending id' st) = Some pending
          \<and> removePending id' (snd (removePending id' st)) = (None, snd (removePending id' st))
          \<and> map_of (pendingRequests (timeoutCallback2 rt now (id', session) st)) id' = None
          \<and> timers (timeoutCallback2 rt now (id', session) st) (timeoutHandle pending) = None
          \<and> sseBroker (timeoutCallback2 rt now (id', session) st)
              = sendEvent rt now (sessionId pending) ''message''
                  (sessionMessage (sessionId pending) (timedOutPayload id')) (sseBroker st)
          \<and> map_of (pendingRequests (projr (onCliMessage2 rt now payload st))) id' = None
          \<and> timers (projr (onCliMessage2 rt now payload st)) (timeoutHandle pending) = None
          \<and> sseBroker (projr (onCliMessage2 rt now payload st))
              = sendEvent rt now (sessionId pending) ''message''
                  (sessionMessage (sessionId pending) payload) (sseBroker st)
          \<and> map_of (pendingRequests (onCliExit rt now st)) id' = None
          \<and> timers (onCliExit rt now st) (timeoutHandle pending) = None)"
proof -
  have absent: "removePending id' st = (None, st)
      \<and> timeoutCallback2 rt now (id', session) st = st
      \<and> onCliMessage2 rt now payload st
          = Inr (st\<lparr>sseBroker :=
              broadcast rt now ''message'' (\<lambda>sid. sessionMessage sid payload) (sseBroker st)\<rparr>)
      \<and> id' \<notin> fst ` set (pendingRequests st)"
    if n: "map_of (pendingRequests st) id' = None"
    using n assms
    by (simp add: removePending_absent timeoutCallback2_def onCliMessage2_def truthy_def
        map_of_eq_None_iff)
  have present: "fst (removePending id' st) = Some pending
      \<and> removePending id' (snd (removePending id' st)) = (None, snd (removePending id' st))
      \<and> map_of (pendingRequests (timeoutCallback2 rt now (id', session) st)) id' = None
      \<and> timers (timeoutCallback2 rt now (id', session) st) (timeoutHandle pending) = None
      \<and> sseBroker (timeoutCallback2 rt now (id', session) st)
          = sendEvent rt now (sessionId pending) ''message''
              (sessionMessage (sessionId pending) (timedOutPayload id')) (sseBroker st)
      \<and> map_of (pendingRequests (projr (onCliMessage2 rt now payload st))) id' = None
      \<and> timers (projr (onCliMessage2 rt now payload st)) (timeoutHandle pending) = None
      \<and> sseBroker (projr (onCliMessage2 rt now payload st))
          = sendEvent rt now (sessionId pending) ''message''
              (sessionMessage (sessionId pending) payload) (sseBroker st)
      \<and> map_of (pendingRequests (onCliExit rt now st)) id' = None
      \<and> timers (onCliExit rt now st) (timeoutHandle pending) = None"
    if p: "map_of (pendingRequests st) id' = Some pending"
  proof -
    from p have mem: "(id', pending) \<in> set (pendingRequests st)"
      by (rule map_of_SomeD)
    have "timers (onCliExit rt now st) (timeoutHandle pending) = None"
      using mem
      by (force simp: onCliExit_def cancelledPayload_eq onCliExit_fold_timers)
    moreover have "map_of (pendingRequests (onCliExit rt now st)) id' = None"
      by (simp add: onCliExit_def)
    ultimately show ?thesis
      using p assms
      by (simp add: removePending_present removePending_absent timeoutCallback2_def
          onCliMessage2_def truthy_def delete_conv' timedOutPayload_eq Let_def
          headersSent_def respond_def split: option.splits)
  qed
  from absent present show ?thesis by blast
qed

theorem removePending_take_if_present_witness:
  "isRecord (pongResponse ''7'')
   \<and> getRequestId exampleRuntime (pongResponse ''7'') = Inr (Some ''7'')
   \<and> map_of (pendingRequests onePending) ''7''
       = Some \<lparr>sessionId = ''a'', startedAt = 5, timeoutHandle = 0, httpResponder = None\<rparr>
   \<and> map_of (pendingRequests (timeoutCallback2 exampleRuntime 45005 (''7'', ''a'') onePending)) ''7''
       = None
   \<and> map_of (pendingRequests (projr (onCliMessage2 exampleRuntime 9 (pongResponse ''7'')
        onePending))) ''7'' = None
   \<and> timeoutCallback2 exampleRuntime 45005 (''7'', ''a'')
        (projr (onCliMessage2 exampleRuntime 9 (pongResponse ''7'') onePending))
       = projr (onCliMessage2 exampleRuntime 9 (pongResponse ''7'') onePending)"
proof -
  have h1: "isRecord (pongResponse ''7'')"
    and h2: "getRequestId exampleRuntime (pongResponse ''7'') = Inr (Some ''7'')"
    and h3: "''7'' \<noteq> []"
    by (simp_all add: pongResponse_def isRecord_def getRequestId_def getProp_def)
  have p: "map_of (pendingRequests onePending) ''7''
      = Some \<lparr>sessionId = ''a'', startedAt = 5, timeoutHandle = 0, httpResponder = None\<rparr>"
    by (simp add: onePending_state)
  note first = removePending_take_if_present [OF h1 h2 h3, where st = onePending
      and pending = "\<lparr>sessionId = ''a'', startedAt = 5, timeoutHandle = 0, httpResponder = None\<rparr>"
      and now = 45005 and session = "''a''"]
  note first' = removePending_take_if_present [OF h1 h2 h3, where st = onePending
      and pending = "\<lparr>sessionId = ''a'', startedAt = 5, timeoutHandle = 0, httpResponder = None\<rparr>"
      and now = 9 and session = "''a''"]
  from first p
  have a: "map_of (pendingRequests (timeoutCallback2 exampleRuntime 45005 (''7'', ''a'') onePending))
      ''7'' = None"
    by blast
  from first' p
  have b: "map_of (pendingRequests (projr (onCliMessage2 exampleRuntime 9 (pongResponse ''7'')
      onePending))) ''7'' = None"
    by blast
  from removePending_take_if_present [OF h1 h2 h3,
      where st = "projr (onCliMessage2 exampleRuntime 9 (pongResponse ''7'') onePending)"
      and now = 45005 and session = "''a''"] b
  have c: "timeoutCallback2 exampleRuntime 45005 (''7'', ''a'')
        (projr (onCliMessage2 exampleRuntime 9 (pongResponse ''7'') onePending))
      = projr (onCliMessage2 exampleRuntime 9 (pongResponse ''7'') onePending)"
    by blast
  from h1 h2 p a b c show ?thesis by blast
qed

lemma submittedTwice1_state:
  "pendingRequests submittedTwice1
     = [(''7'', \<lparr>sessionId = ''a'', startedAt = 6, timeoutHandle = 1, httpResponder = None\<rparr>)]"
  "sseBroker submittedTwice1 = exampleBroker"
  "timers submittedTwice1 = (\<lambda>_. None)(0 \<mapsto> (''7'', ''a''), 1 \<mapsto> (''7'', ''a''))"
  by (simp_all add: submittedTwice1_def messageHandler1_def exampleServer_def newServer_def
      pingRequest_def extractMessageEnvelope_def isRecord_def getProp_def getRequestId_def
      truthy_def setTimeout_def send_def runningCli_def start_def startAuthenticated_def
      spawnCli_def newMablCli_def exampleRuntime_def forwardSucceeded1_def respond_def
      Let_def)

lemma submittedTwice2_state:
  "pendingRequests submittedTwice2
     = [(''7'', \<lparr>sessionId = ''a'', startedAt = 6, timeoutHandle = 1, httpResponder = None\<rparr>)]"
  "sseBroker submittedTwice2 = exampleBroker"
  "timers submittedTwice2 = (\<lambda>_. None)(0 \<mapsto> (''7'', ''a''), 1 \<mapsto> (''7'', ''a''))"
  by (simp_all add: submittedTwice2_def messageHandler2_def exampleServer_def newServer_def
      pingRequest_def normalizeEnvelope_def isRecord_def getProp_def getRequestId_def
      truthy_def setTimeout_def send_def runningCli_def start_def startAuthenticated_def
      spawnCli_def newMablCli_def exampleRuntime_def forwardSucceeded2_def respond_def
      Let_def)

text \<open>
  C1. Session \<open>a\<close> submits the request with identifier 7 twice: the second
  registration replaces the entry and arms timer 1, timer 0 stays armed. The worker
  answers: the entry is removed, timer 1 is cleared and the response is written to
  the stream of \<open>a\<close>. Then timer 0 fires. In the earlier revision its callback does
  not look whether the entry is still there: the stream of \<open>a\<close> receives the timeout
  error for identifier 7 after the response for identifier 7. In the later revision
  the callback finds no entry and writes nothing.
\<close>

theorem timeout_after_resolution:
  "(let resolved1 = projr (onCliMessage1 exampleRuntime 9 (pongResponse ''7'') submittedTwice1);
        fired1 = timeoutFired1 exampleRuntime 45005 0 resolved1;
        resolved2 = projr (onCliMessage2 exampleRuntime 9 (pongResponse ''7'') submittedTwice2);
        fired2 = timeoutFired2 exampleRuntime 45005 0 resolved2
    in pendingRequests resolved1 = []
     \<and> timers resolved1 0 = Some (''7'', ''a'') \<and> timers resolved1 1 = None
     \<and> written (streams (sseBroker resolved1) 0)
         = [''event: ready'' @ [newline],
            ''data: {\"session\":\"a\"}'' @ [newline, newline],
            ''event: message'' @ [newline],
            ''data: {\"session\":\"a\",\"body\":{\"id\":\"7\",\"result\":\"pong\"}}''
              @ [newline, newline]]
     \<and> written (streams (sseBroker fired1) 0)
         = written (streams (sseBroker resolved1) 0)
           @ [''event: message'' @ [newline],
              ''data: {\"session\":\"a\",\"body\":{\"jsonrpc\":\"2.0\",\"id\":\"7\",\"error\":{\"code\":-32000,\"message\":\"Timed out waiting for response from mabl CLI.\"}}}''
                @ [newline, newline]]
     \<and> pendingRequests resolved2 = []
     \<and> timers resolved2 0 = Some (''7'', ''a'') \<and> timers resolved2 1 = None
     \<and> written (streams (sseBroker resolved2) 0) = written (streams (sseBroker resolved1) 0)
     \<and> sseBroker fired2 = sseBroker resolved2
     \<and> pendingRequests fired2 = [])"
proof -
  have s: "JSON_stringify exampleRuntime j = Some (render j)" for j
    by (simp add: exampleRuntime_def)
  have r: "isRecord (pongResponse ''7'')"
    and g: "getRequestId exampleRuntime (pongResponse ''7'') = Inr (Some ''7'')"
    by (simp_all add: pongResponse_def isRecord_def getRequestId_def getProp_def)
  define b1 where "b1 = sendEvent exampleRuntime 9 ''a'' ''message''
      (sessionMessage ''a'' (pongResponse ''7'')) exampleBroker"
  have r1: "projr (onCliMessage1 exampleRuntime 9 (pongResponse ''7'') submittedTwice1)
      = submittedTwice1\<lparr>timers := (timers submittedTwice1)(1 := None),
          pendingRequests := [], sseBroker := b1\<rparr>"
    by (simp add: onCliMessage1_def r g truthy_def submittedTwice1_state clearPending_def
        clearTimeout_def b1_def)
  have r2: "projr (onCliMessage2 exampleRuntime 9 (pongResponse ''7'') submittedTwice2)
      = submittedTwice2\<lparr>timers := (timers submittedTwice2)(1 := None),
          pendingRequests := [], sseBroker := b1\<rparr>"
    by (simp add: onCliMessage2_def r g truthy_def submittedTwice2_state removePending_def
        clearTimeout_def b1_def)
  have w1: "written (streams b1 0)
      = [''event: ready'' @ [newline],
         ''data: {\"session\":\"a\"}'' @ [newline, newline],
         ''event: message'' @ [newline],
         ''data: {\"session\":\"a\",\"body\":{\"id\":\"7\",\"result\":\"pong\"}}''
           @ [newline, newline]]"
    by (simp add: b1_def sendEvent_streams exampleBroker_clients exampleBroker_written
        eventFrames_def s sessionMessage_def pongResponse_def quoted_def)
  have a: "map_option res (map_of (clients b1) ''a'') = Some 0"
    by (simp add: b1_def exampleBroker_clients)
  have f1: "written (streams (sendEvent exampleRuntime 45005 ''a'' ''message''
        (sessionMessage ''a'' (timedOutPayload ''7'')) b1) 0)
      = written (streams b1 0)
        @ [''event: message'' @ [newline],
           ''data: {\"session\":\"a\",\"body\":{\"jsonrpc\":\"2.0\",\"id\":\"7\",\"error\":{\"code\":-32000,\"message\":\"Timed out waiting for response from mabl CLI.\"}}}''
             @ [newline, newline]]"
    using a
    by (simp add: sendEvent_streams eventFrames_def s sessionMessage_def timedOutPayload_def
        quoted_def showInt_def showNat.simps digitChar_def)
  define R1 where "R1 = projr (onCliMessage1 exampleRuntime 9 (pongResponse ''7'') submittedTwice1)"
  define R2 where "R2 = projr (onCliMessage2 exampleRuntime 9 (pongResponse ''7'') submittedTwice2)"
  have R1: "pendingRequests R1 = []" "timers R1 0 = Some (''7'', ''a'')"
    "timers R1 (Suc 0) = None" "sseBroker R1 = b1"
    by (simp_all add: R1_def r1 submittedTwice1_state)
  have R2: "pendingRequests R2 = []" "timers R2 0 = Some (''7'', ''a'')"
    "timers R2 (Suc 0) = None" "sseBroker R2 = b1"
    by (simp_all add: R2_def r2 submittedTwice2_state)
  have F1: "sseBroker (timeoutFired1 exampleRuntime 45005 0 R1)
      = sendEvent exampleRuntime 45005 ''a'' ''message''
          (sessionMessage ''a'' (timedOutPayload ''7'')) b1"
    by (simp add: timeoutFired1_armed [OF R1(2)] R1)
  have F2: "sseBroker (timeoutFired2 exampleRuntime 45005 0 R2) = b1"
    "pendingRequests (timeoutFired2 exampleRuntime 45005 0 R2) = []"
    by (simp_all add: timeoutFired2_absent [OF R2(2)] R2)
  show ?thesis
    unfolding Let_def R1_def [symmetric] R2_def [symmetric]
    by (simp add: R1 R2 F1 F2 f1 w1)
qed


end
